theory Spec2Isabelle
  imports Complex_Main "HOL-Library.Log_Nat"
begin

section \<open>The USSD farmer-registration dialogue of \<^verbatim>\<open>src/index.js\<close>\<close>

text \<open>
  The request handler \<^verbatim>\<open>app.post('/ussd')\<close>, the timer of its response deadline, the
  expiry sweeper and \<^verbatim>\<open>cleanupSession\<close> are embedded as functions on an explicit
  state.

  Conventions of the embedding.
  \<^item> Strings are byte strings (UTF-8); the three request fields are strings, a missing
    \<^verbatim>\<open>text\<close> being the empty string (the destructuring default).
  \<^item> \<^verbatim>\<open>sessionData\<close>, \<^verbatim>\<open>farmerDatabase\<close> and the two code tables are plain objects:
    a lookup \<^verbatim>\<open>obj[key]\<close> that finds no own property goes on to the prototype. The
    state holds the own properties of the two global objects as maps and, beside them,
    every part of their prototype chains that the handler can change: the properties
    \<^verbatim>\<open>stage\<close> and \<^verbatim>\<open>lastActivity\<close> that a request with the session id
    \<^verbatim>\<open>__proto__\<close> assigns to \<^verbatim>\<open>Object.prototype\<close>, the property \<^verbatim>\<open>stage\<close> that a
    request assigns to a function of \<^verbatim>\<open>Object.prototype\<close> which it has taken for a
    session, and the prototype of \<^verbatim>\<open>farmerDatabase\<close>, which the assignment
    \<^verbatim>\<open>farmerDatabase['__proto__'] = registrationData\<close> replaces. (The property
    \<^verbatim>\<open>lastActivity\<close> that line 67 assigns to such a function is never read and is not
    kept.)
  \<^item> The file has no \<^verbatim>\<open>'use strict'\<close>: an assignment to a property of a primitive
    value is ignored.
  \<^item> \<^verbatim>\<open>Date.now()\<close> and the locale date are inputs of a request (\<open>clock_reads\<close>);
    the times are integers.
  \<^item> A JavaScript number is \<open>NaN\<close>, an infinity, or a finite binary64 value given by
    its exact rational value; \<open>-0\<close> and \<open>+0\<close> are both \<open>Fin 0\<close> (the handler only
    compares with \<open>0\<close> and never stores a zero).
\<close>

subsection \<open>Input decoding (lines 52-54)\<close>

text \<open>\<^verbatim>\<open>String.prototype.split\<close> with a one-character separator: the segments between
  the separators, empty ones included; the empty string gives one empty segment.\<close>

fun js_split :: "char \<Rightarrow> string \<Rightarrow> string list" where
  "js_split sep [] = [[]]"
| "js_split sep (c # cs) =
     (if c = sep then [] # js_split sep cs
      else (case js_split sep cs of
              [] \<Rightarrow> [[c]]
            | seg # segs \<Rightarrow> (c # seg) # segs))"

text \<open>\<^verbatim>\<open>text.split('*').filter(input => input)\<close>: the empty string is the only falsy
  string.\<close>

definition userInputs :: "string \<Rightarrow> string list" where
  "userInputs ctext = filter (\<lambda>input. input \<noteq> []) (js_split (CHR ''*'') ctext)"

text \<open>\<^verbatim>\<open>userInputs[userInputs.length - 1] || ''\<close>: index \<open>-1\<close> of the empty array is
  \<^verbatim>\<open>undefined\<close>, which \<^verbatim>\<open>||\<close> replaces by the empty string.\<close>

definition currentInput :: "string \<Rightarrow> string" where
  "currentInput ctext =
     (case userInputs ctext of
        [] \<Rightarrow> []
      | _ # _ \<Rightarrow> (let x = last (userInputs ctext) in if x = [] then [] else x))"

definition inputLevel :: "string \<Rightarrow> nat" where
  "inputLevel ctext = length (userInputs ctext)"

text \<open>\<^verbatim>\<open>Array.prototype.join\<close>, used to state what \<open>js_split\<close> computes.\<close>

fun js_join :: "char \<Rightarrow> string list \<Rightarrow> string" where
  "js_join sep [] = []"
| "js_join sep [seg] = seg"
| "js_join sep (seg # segs) = seg @ sep # js_join sep segs"

subsection \<open>JavaScript numbers: \<^verbatim>\<open>parseFloat\<close>, comparison, printing\<close>

datatype jsnum = NaN | PosInf | NegInf | Fin rat

definition isNaN :: "jsnum \<Rightarrow> bool" where
  "isNaN x = (x = NaN)"

text \<open>\<^verbatim>\<open>x <= 0\<close>: false for \<open>NaN\<close>.\<close>

fun le_zero :: "jsnum \<Rightarrow> bool" where
  "le_zero NaN = False"
| "le_zero PosInf = False"
| "le_zero NegInf = True"
| "le_zero (Fin q) = (q \<le> 0)"

definition pow :: "rat \<Rightarrow> int \<Rightarrow> rat" where
  "pow b k = (if 0 \<le> k then b ^ nat k else 1 / b ^ nat (- k))"

definition round_half_even :: "rat \<Rightarrow> int" where
  "round_half_even x =
     (let f = \<lfloor>x\<rfloor>; d = x - of_int f in
      if d < 1 / 2 then f
      else if 1 / 2 < d then f + 1
      else if even f then f else f + 1)"

text \<open>For \<open>0 < q\<close>: the \<open>e\<close> with \<open>2 ^ e \<le> q < 2 ^ (e + 1)\<close>.\<close>

definition floor_log2 :: "rat \<Rightarrow> int" where
  "floor_log2 q =
     (let (a, b) = quotient_of q; d = bitlen a - bitlen b in
      if pow 2 d \<le> q then d else d - 1)"

text \<open>The Number value for a positive real (ECMAScript 6.1.6.1): the nearest binary64
  value, ties to the even significand; 53 significant bits, least exponent \<open>-1022\<close>
  (subnormals below), and \<open>2 ^ 1024\<close> replaced by infinity.\<close>

definition round_double :: "rat \<Rightarrow> jsnum" where
  "round_double q =
     (let e = max (floor_log2 q) (- 1022);
          ulp = pow 2 (e - 52);
          r = of_int (round_half_even (q / ulp)) * ulp
      in if 2 ^ 1024 \<le> r then PosInf else Fin r)"

definition negate :: "jsnum \<Rightarrow> jsnum" where
  "negate x = (case x of NaN \<Rightarrow> NaN | PosInf \<Rightarrow> NegInf | NegInf \<Rightarrow> PosInf | Fin q \<Rightarrow> Fin (- q))"

definition to_double :: "rat \<Rightarrow> jsnum" where
  "to_double q =
     (if q = 0 then Fin 0
      else if 0 < q then round_double q
      else negate (round_double (- q)))"

text \<open>White space and line terminators of ECMAScript, as UTF-8 byte sequences: TAB, LF,
  VT, FF, CR, SP, U+00A0, U+1680, U+2000 to U+200A, U+2028, U+2029, U+202F, U+205F,
  U+3000, U+FEFF.\<close>

definition ws_seqs :: "string list" where
  "ws_seqs =
     [[CHR 0x09], [CHR 0x0A], [CHR 0x0B], [CHR 0x0C], [CHR 0x0D], [CHR 0x20],
      [CHR 0xC2, CHR 0xA0], [CHR 0xE1, CHR 0x9A, CHR 0x80],
      [CHR 0xE2, CHR 0x80, CHR 0x80], [CHR 0xE2, CHR 0x80, CHR 0x81],
      [CHR 0xE2, CHR 0x80, CHR 0x82], [CHR 0xE2, CHR 0x80, CHR 0x83],
      [CHR 0xE2, CHR 0x80, CHR 0x84], [CHR 0xE2, CHR 0x80, CHR 0x85],
      [CHR 0xE2, CHR 0x80, CHR 0x86], [CHR 0xE2, CHR 0x80, CHR 0x87],
      [CHR 0xE2, CHR 0x80, CHR 0x88], [CHR 0xE2, CHR 0x80, CHR 0x89],
      [CHR 0xE2, CHR 0x80, CHR 0x8A], [CHR 0xE2, CHR 0x80, CHR 0xA8],
      [CHR 0xE2, CHR 0x80, CHR 0xA9], [CHR 0xE2, CHR 0x80, CHR 0xAF],
      [CHR 0xE2, CHR 0x81, CHR 0x9F], [CHR 0xE3, CHR 0x80, CHR 0x80],
      [CHR 0xEF, CHR 0xBB, CHR 0xBF]]"

definition starts_with :: "string \<Rightarrow> string \<Rightarrow> bool" where
  "starts_with p s = (take (length p) s = p)"

lemma ws_seqs_nonempty: "p \<in> set ws_seqs \<Longrightarrow> p \<noteq> []"
  by (auto simp: ws_seqs_def)

lemma find_ws_shorter:
  assumes "List.find (\<lambda>p. starts_with p s) ws_seqs = Some p"
  shows "length (drop (length p) s) < length s"
proof -
  from assms obtain i where "i < length ws_seqs" "starts_with (ws_seqs ! i) s" "p = ws_seqs ! i"
    by (auto simp: find_Some_iff)
  then have "p \<in> set ws_seqs" and sw: "take (length p) s = p"
    by (auto simp: starts_with_def)
  then have "p \<noteq> []" by (simp add: ws_seqs_nonempty)
  with sw have "s \<noteq> []" by auto
  with \<open>p \<noteq> []\<close> show ?thesis by simp
qed

text \<open>\<^verbatim>\<open>TrimString(s, start)\<close>: drop leading white space.\<close>

function strip_ws :: "string \<Rightarrow> string" where
  "strip_ws s =
     (case List.find (\<lambda>p. starts_with p s) ws_seqs of
        None \<Rightarrow> s
      | Some p \<Rightarrow> strip_ws (drop (length p) s))"
  by pat_completeness auto
termination
  by (relation "measure length") (auto dest: find_ws_shorter)

definition is_digit :: "char \<Rightarrow> bool" where
  "is_digit c = (48 \<le> (of_char c :: nat) \<and> (of_char c :: nat) \<le> 57)"

definition digits_val :: "string \<Rightarrow> int" where
  "digits_val ds = foldl (\<lambda>acc c. 10 * acc + (of_char c - 48)) 0 ds"

text \<open>The optional \<^verbatim>\<open>ExponentPart\<close> at the head of a string: \<^verbatim>\<open>e\<close> or \<^verbatim>\<open>E\<close>, an
  optional sign and at least one digit; its value, \<open>0\<close> when there is none.\<close>

definition exponent_part :: "string \<Rightarrow> int" where
  "exponent_part s =
     (case s of
        [] \<Rightarrow> 0
      | c # r \<Rightarrow>
          if c = CHR ''e'' \<or> c = CHR ''E'' then
            (let neg = starts_with ''-'' r;
                 r' = (if starts_with ''-'' r \<or> starts_with ''+'' r then tl r else r);
                 ds = takeWhile is_digit r'
             in if ds = [] then 0
                else if neg then - digits_val ds else digits_val ds)
          else 0)"

text \<open>The longest prefix that is a \<^verbatim>\<open>StrUnsignedDecimalLiteral\<close>, and its value.\<close>

definition unsigned_literal :: "string \<Rightarrow> jsnum" where
  "unsigned_literal s =
     (if starts_with ''Infinity'' s then PosInf
      else
        (let int_ds = takeWhile is_digit s;
             r1 = dropWhile is_digit s;
             frac_ds = (if starts_with ''.'' r1 then takeWhile is_digit (tl r1) else []);
             r2 = (if starts_with ''.'' r1 then dropWhile is_digit (tl r1) else r1)
         in if int_ds = [] \<and> frac_ds = [] then NaN
            else to_double
                   ((of_int (digits_val int_ds)
                     + of_int (digits_val frac_ds) / 10 ^ length frac_ds)
                    * pow 10 (exponent_part r2))))"

text \<open>\<^verbatim>\<open>parseFloat\<close> (ECMAScript 19.2.4): leading white space is dropped, the longest
  prefix that is a \<^verbatim>\<open>StrDecimalLiteral\<close> is read, what follows it is ignored, and
  \<open>NaN\<close> is returned when no prefix is one.\<close>

definition parseFloat :: "string \<Rightarrow> jsnum" where
  "parseFloat s =
     (let t = strip_ws s in
      if starts_with ''-'' t then negate (unsigned_literal (tl t))
      else if starts_with ''+'' t then unsigned_literal (tl t)
      else unsigned_literal t)"

text \<open>The decimal digits of a non-negative integer.\<close>

function decimal :: "int \<Rightarrow> string" where
  "decimal n =
     (if n < 10 then [char_of (48 + n)]
      else decimal (n div 10) @ [char_of (48 + n mod 10)])"
  by pat_completeness auto
termination
  by (relation "measure nat") auto

text \<open>The number of decimal digits of a positive integer.\<close>

function declen :: "int \<Rightarrow> int" where
  "declen a = (if 0 < a then declen (a div 10) + 1 else 0)"
  by pat_completeness auto
termination
  by (relation "measure nat") auto

text \<open>For \<open>0 < q\<close>: the \<open>n\<close> with \<open>10 ^ (n - 1) \<le> q < 10 ^ n\<close>.\<close>

definition decade :: "rat \<Rightarrow> int" where
  "decade q =
     (let (a, b) = quotient_of q;
          d = declen a - declen b
      in if pow 10 d \<le> q then d + 1 else d)"

text \<open>\<^verbatim>\<open>Number::toString\<close> step 5 for a finite \<open>0 < q\<close> of decade \<open>n\<close>: a \<open>k\<close>-digit
  integer \<open>s\<close> such that \<open>s * 10 ^ (n - k)\<close> has Number value \<open>q\<close>, the closest to
  \<open>q\<close> if there are two, the even one if both are as close. Only the two integers
  around \<open>q / 10 ^ (n - k)\<close> can qualify.\<close>

definition pick :: "rat \<Rightarrow> int \<Rightarrow> nat \<Rightarrow> int option" where
  "pick q n k =
     (let scale = pow 10 (n - int k);
          lo = \<lfloor>q / scale\<rfloor>;
          hi = lo + 1;
          ok_lo = (to_double (of_int lo * scale) = Fin q);
          ok_hi = (to_double (of_int hi * scale) = Fin q);
          d_lo = q - of_int lo * scale;
          d_hi = of_int hi * scale - q
      in if ok_lo \<and> ok_hi then
           (if d_lo < d_hi then Some lo
            else if d_hi < d_lo then Some hi
            else if even lo then Some lo else Some hi)
         else if ok_lo then Some lo
         else if ok_hi then Some hi
         else None)"

definition digit_counts :: "nat list" where
  "digit_counts = [1, 2, 3, 4, 5, 6, 7, 8, 9, 10, 11, 12, 13, 14, 15, 16, 17]"

fun first_pick :: "rat \<Rightarrow> int \<Rightarrow> nat list \<Rightarrow> (int \<times> nat) option" where
  "first_pick q n [] = None"
| "first_pick q n (k # ks) =
     (case pick q n k of
        Some s \<Rightarrow> Some (s, k)
      | None \<Rightarrow> first_pick q n ks)"

text \<open>The least \<open>k\<close> is taken. 17 digits identify every binary64 value, so the search
  ends by \<open>k = 17\<close> and the alternative after it is never taken. A pick of \<open>10 ^ k\<close>
  is the one digit \<open>1\<close> of the next decade.\<close>

definition shortest_digits :: "rat \<Rightarrow> int \<times> nat \<times> int" where
  "shortest_digits q =
     (let n = decade q;
          (s, k) = (case first_pick q n digit_counts of
                      Some sk \<Rightarrow> sk
                    | None \<Rightarrow> (\<lfloor>q / pow 10 (n - 17)\<rfloor>, 17))
      in if s = 10 ^ k then (10 ^ (k - 1), k, n + 1) else (s, k, n))"

text \<open>\<^verbatim>\<open>Number::toString\<close> steps 6 to 10 for a positive finite value.\<close>

definition positive_to_string :: "rat \<Rightarrow> string" where
  "positive_to_string q =
     (let (s, k, n) = shortest_digits q;
          ds = decimal s;
          e = n - 1;
          exp = CHR ''e'' # (if e < 0 then CHR ''-'' else CHR ''+'') # decimal \<bar>e\<bar>
      in if int k \<le> n \<and> n \<le> 21 then ds @ replicate (nat (n - int k)) (CHR ''0'')
         else if 0 < n \<and> n \<le> 21 then take (nat n) ds @ ''.'' @ drop (nat n) ds
         else if - 6 < n \<and> n \<le> 0 then ''0.'' @ replicate (nat (- n)) (CHR ''0'') @ ds
         else if k = 1 then ds @ exp
         else take 1 ds @ ''.'' @ drop 1 ds @ exp)"

fun number_to_string :: "jsnum \<Rightarrow> string" where
  "number_to_string NaN = ''NaN''"
| "number_to_string PosInf = ''Infinity''"
| "number_to_string NegInf = ''-Infinity''"
| "number_to_string (Fin q) =
     (if q = 0 then ''0''
      else if q < 0 then CHR ''-'' # positive_to_string (- q)
      else positive_to_string q)"

subsection \<open>Sessions, registrations and the global objects\<close>

datatype stage =
    MAIN_MENU | ENTER_NAME | SELECT_COUNTY | ENTER_CUSTOM_COUNTY
  | SELECT_CROP | ENTER_CUSTOM_CROP | ENTER_FARM_SIZE | CONFIRM_REGISTRATION

text \<open>The values, other than a session and a registration record, that a lookup in one
  of the plain objects can give: a string, a number, a function of
  \<^verbatim>\<open>Object.prototype\<close> (\<open>Fn key\<close> is the function held by the property \<open>key\<close>), and
  \<^verbatim>\<open>Object.prototype\<close> itself (the value of \<^verbatim>\<open>__proto__\<close>).\<close>

datatype jsval = Str string | Num jsnum | Fn string | ObjectPrototype

text \<open>\<^verbatim>\<open>farmerData\<close> starts as \<^verbatim>\<open>{}\<close>; a property that has not been assigned is
  \<open>None\<close> (reads as \<^verbatim>\<open>undefined\<close>). The name is an entry of the text and the farm
  size a result of \<^verbatim>\<open>parseFloat\<close>; the county and the crop are an entry of the text
  or whatever the lookup \<^verbatim>\<open>counties[currentInput]\<close>, \<^verbatim>\<open>crops[currentInput]\<close> found.\<close>

record farmer_data =
  name :: "string option"
  county :: "jsval option"
  crop :: "jsval option"
  farmSize :: "jsnum option"

record session =
  phoneNumber :: string
  stage :: stage
  farmerData :: farmer_data
  lastActivity :: int
  createdAt :: int

text \<open>\<^verbatim>\<open>{...session.farmerData, phoneNumber, registrationDate}\<close> (lines 229-235).\<close>

record registration = farmer_data +
  reg_phoneNumber :: string
  registrationDate :: string

text \<open>The state: the own properties of \<^verbatim>\<open>sessionData\<close> and of \<^verbatim>\<open>farmerDatabase\<close>;
  the prototype of \<^verbatim>\<open>farmerDatabase\<close> (\<open>None\<close>: \<^verbatim>\<open>Object.prototype\<close>, as created;
  \<open>Some r\<close>: the record \<open>r\<close>, whose prototype is \<^verbatim>\<open>Object.prototype\<close>); the
  properties \<^verbatim>\<open>stage\<close> and \<^verbatim>\<open>lastActivity\<close> of \<^verbatim>\<open>Object.prototype\<close> (\<open>None\<close>:
  absent, as created); the own property \<^verbatim>\<open>stage\<close> of each function of
  \<^verbatim>\<open>Object.prototype\<close>.\<close>

record state =
  sessionData :: "string \<rightharpoonup> session"
  farmerDatabase :: "string \<rightharpoonup> registration"
  registryPrototype :: "registration option"
  prototypeStage :: "stage option"
  prototypeLastActivity :: "int option"
  functionStage :: "string \<rightharpoonup> stage"

text \<open>What one request reads from the clock: \<^verbatim>\<open>Date.now()\<close> for \<^verbatim>\<open>lastActivity\<close>
  (line 62 or 67), \<^verbatim>\<open>Date.now()\<close> for \<^verbatim>\<open>createdAt\<close> (line 63), and the locale
  string of line 232.\<close>

record clock_reads =
  now_activity :: int
  now_created :: int
  now_locale :: string

definition SESSION_TIMEOUT :: int where
  "SESSION_TIMEOUT = 5 * 60 * 1000"

definition store_session :: "string \<Rightarrow> session \<Rightarrow> state \<Rightarrow> state" where
  "store_session sessionId s st = st\<lparr>sessionData := (sessionData st)(sessionId \<mapsto> s)\<rparr>"

text \<open>\<^verbatim>\<open>cleanupSession\<close> (lines 752-758). \<^verbatim>\<open>delete\<close> removes an own property only, and
  a stored session is truthy, so the function removes the own property if there is one
  and changes nothing otherwise, also when the lookup of line 754 finds an inherited
  value.\<close>

definition cleanupSession :: "string \<Rightarrow> state \<Rightarrow> state" where
  "cleanupSession sessionId st =
     (if sessionData st sessionId \<noteq> None
      then st\<lparr>sessionData := (sessionData st)(sessionId := None)\<rparr>
      else st)"

subsection \<open>Property lookup along the prototype chain\<close>

text \<open>The functions of \<^verbatim>\<open>Object.prototype\<close>, by the name of the property that holds
  them; its one other property is the accessor \<^verbatim>\<open>__proto__\<close>.\<close>

definition object_prototype_functions :: "string list" where
  "object_prototype_functions =
     [''constructor'', ''__defineGetter__'', ''__defineSetter__'', ''hasOwnProperty'',
      ''__lookupGetter__'', ''__lookupSetter__'', ''isPrototypeOf'',
      ''propertyIsEnumerable'', ''toString'', ''valueOf'', ''toLocaleString'']"

text \<open>The \<^verbatim>\<open>name\<close> of such a function: \<^verbatim>\<open>Object.prototype.constructor\<close> is
  \<^verbatim>\<open>Object\<close>; each of the others is named like its property.\<close>

definition function_name :: "string \<Rightarrow> string" where
  "function_name key = (if key = ''constructor'' then ''Object'' else key)"

fun stage_name :: "stage \<Rightarrow> string" where
  "stage_name MAIN_MENU = ''MAIN_MENU''"
| "stage_name ENTER_NAME = ''ENTER_NAME''"
| "stage_name SELECT_COUNTY = ''SELECT_COUNTY''"
| "stage_name ENTER_CUSTOM_COUNTY = ''ENTER_CUSTOM_COUNTY''"
| "stage_name SELECT_CROP = ''SELECT_CROP''"
| "stage_name ENTER_CUSTOM_CROP = ''ENTER_CUSTOM_CROP''"
| "stage_name ENTER_FARM_SIZE = ''ENTER_FARM_SIZE''"
| "stage_name CONFIRM_REGISTRATION = ''CONFIRM_REGISTRATION''"

text \<open>\<^verbatim>\<open>obj[key]\<close> for an object \<open>obj\<close> that has no own property \<open>key\<close> and whose
  prototype is \<^verbatim>\<open>Object.prototype\<close>: \<open>None\<close> is \<^verbatim>\<open>undefined\<close>.\<close>

definition object_prototype_get :: "state \<Rightarrow> string \<Rightarrow> jsval option" where
  "object_prototype_get st key =
     (if key \<in> set object_prototype_functions then Some (Fn key)
      else if key = ''__proto__'' then Some ObjectPrototype
      else if key = ''stage'' then map_option (\<lambda>s. Str (stage_name s)) (prototypeStage st)
      else if key = ''lastActivity''
        then map_option (\<lambda>t. Num (Fin (of_int t))) (prototypeLastActivity st)
      else None)"

text \<open>\<^verbatim>\<open>ToBoolean\<close>.\<close>

fun truthy :: "jsval \<Rightarrow> bool" where
  "truthy (Str s) = (s \<noteq> [])"
| "truthy (Num x) = (\<not> isNaN x \<and> x \<noteq> Fin 0)"
| "truthy (Fn key) = True"
| "truthy ObjectPrototype = True"

definition js_truthy :: "jsval option \<Rightarrow> bool" where
  "js_truthy v = (case v of None \<Rightarrow> False | Some x \<Rightarrow> truthy x)"

text \<open>A code table (\<^verbatim>\<open>counties\<close>, \<^verbatim>\<open>crops\<close>) is an object literal, created by the
  request that uses it: \<^verbatim>\<open>table[key]\<close>.\<close>

definition table_get :: "(string \<rightharpoonup> string) \<Rightarrow> state \<Rightarrow> string \<Rightarrow> jsval option" where
  "table_get table st key =
     (case table key of Some v \<Rightarrow> Some (Str v) | None \<Rightarrow> object_prototype_get st key)"

text \<open>The own properties of a registration record, by name.\<close>

definition record_get :: "registration \<Rightarrow> string \<Rightarrow> jsval option" where
  "record_get r key =
     (if key = ''name'' then map_option Str (name r)
      else if key = ''county'' then county r
      else if key = ''crop'' then crop r
      else if key = ''farmSize'' then map_option Num (farmSize r)
      else if key = ''phoneNumber'' then Some (Str (reg_phoneNumber r))
      else if key = ''registrationDate'' then Some (Str (registrationDate r))
      else None)"

text \<open>\<^verbatim>\<open>farmerDatabase[phoneNumber]\<close> (lines 109-110): an own property; else, when the
  prototype is a record, that record for the key \<^verbatim>\<open>__proto__\<close> (the accessor gives the
  prototype of \<^verbatim>\<open>farmerDatabase\<close>) and otherwise a property of that record; else a
  property of \<^verbatim>\<open>Object.prototype\<close>.\<close>

datatype farmer = Record registration | Value jsval

definition registry_get :: "state \<Rightarrow> string \<Rightarrow> farmer option" where
  "registry_get st phone =
     (case farmerDatabase st phone of
        Some r \<Rightarrow> Some (Record r)
      | None \<Rightarrow>
          (case registryPrototype st of
             None \<Rightarrow> map_option Value (object_prototype_get st phone)
           | Some p \<Rightarrow>
               if phone = ''__proto__'' then Some (Record p)
               else (case record_get p phone of
                       Some v \<Rightarrow> Some (Value v)
                     | None \<Rightarrow> map_option Value (object_prototype_get st phone))))"

text \<open>\<^verbatim>\<open>farmerDatabase[phoneNumber] = registrationData\<close> (line 236): for the key
  \<^verbatim>\<open>__proto__\<close> the setter inherited from \<^verbatim>\<open>Object.prototype\<close> makes the record the
  prototype of \<^verbatim>\<open>farmerDatabase\<close> and adds no own property; any other key becomes an
  own property.\<close>

definition registry_put :: "string \<Rightarrow> registration \<Rightarrow> state \<Rightarrow> state" where
  "registry_put phone r st =
     (if phone = ''__proto__'' \<and> farmerDatabase st phone = None
      then st\<lparr>registryPrototype := Some r\<rparr>
      else st\<lparr>farmerDatabase := (farmerDatabase st)(phone \<mapsto> r)\<rparr>)"

fun farmer_truthy :: "farmer \<Rightarrow> bool" where
  "farmer_truthy (Record r) = True"
| "farmer_truthy (Value v) = truthy v"

text \<open>The properties of \<^verbatim>\<open>farmer\<close> that lines 112-116 read. Of the values that are not
  a record, only a function has one of them: its \<^verbatim>\<open>name\<close>.\<close>

fun farmer_name :: "farmer \<Rightarrow> jsval option" where
  "farmer_name (Record r) = map_option Str (name r)"
| "farmer_name (Value (Fn key)) = Some (Str (function_name key))"
| "farmer_name (Value (Str s)) = None"
| "farmer_name (Value (Num x)) = None"
| "farmer_name (Value ObjectPrototype) = None"

fun farmer_county :: "farmer \<Rightarrow> jsval option" where
  "farmer_county (Record r) = county r"
| "farmer_county (Value v) = None"

fun farmer_crop :: "farmer \<Rightarrow> jsval option" where
  "farmer_crop (Record r) = crop r"
| "farmer_crop (Value v) = None"

fun farmer_farmSize :: "farmer \<Rightarrow> jsval option" where
  "farmer_farmSize (Record r) = map_option Num (farmSize r)"
| "farmer_farmSize (Value v) = None"

fun farmer_registrationDate :: "farmer \<Rightarrow> jsval option" where
  "farmer_registrationDate (Record r) = Some (Str (registrationDate r))"
| "farmer_registrationDate (Value v) = None"

subsection \<open>Menus and messages\<close>

definition generateMainMenu :: string where
  "generateMainMenu =
     ''CON Welcome to Farmer Registration Service\<newline>'' @
     ''Please select an option:\<newline>'' @
     ''1. Register as new farmer\<newline>'' @
     ''2. Check registration status\<newline>'' @
     ''3. Exit''"

definition generateCropMenu :: string where
  "generateCropMenu =
     ''CON Select your main crop:\<newline>'' @
     ''1. Maize\<newline>'' @
     ''2. Wheat\<newline>'' @
     ''3. Rice\<newline>'' @
     ''4. Beans\<newline>'' @
     ''5. Potatoes\<newline>'' @
     ''6. Tea\<newline>'' @
     ''7. Coffee\<newline>'' @
     ''8. Sugarcane\<newline>'' @
     ''9. Other''"

text \<open>Template interpolation \<^verbatim>\<open>${v}\<close>: \<^verbatim>\<open>undefined\<close> for a missing property, the
  source text of a native function, and \<^verbatim>\<open>[object Object]\<close> for
  \<^verbatim>\<open>Object.prototype\<close>.\<close>

fun show_value :: "jsval option \<Rightarrow> string" where
  "show_value None = ''undefined''"
| "show_value (Some (Str s)) = s"
| "show_value (Some (Num x)) = number_to_string x"
| "show_value (Some (Fn key)) = ''function '' @ function_name key @ ''() { [native code] }''"
| "show_value (Some ObjectPrototype) = ''[object Object]''"

definition show_string :: "string option \<Rightarrow> string" where
  "show_string v = (case v of None \<Rightarrow> ''undefined'' | Some s \<Rightarrow> s)"

definition show_number :: "jsnum option \<Rightarrow> string" where
  "show_number v = (case v of None \<Rightarrow> ''undefined'' | Some x \<Rightarrow> number_to_string x)"

definition generateConfirmation :: "farmer_data \<Rightarrow> string" where
  "generateConfirmation d =
     ''CON Confirm your details:\<newline>'' @
     ''Name: '' @ show_string (name d) @ ''\<newline>'' @
     ''County: '' @ show_value (county d) @ ''\<newline>'' @
     ''Crop: '' @ show_value (crop d) @ ''\<newline>'' @
     ''Farm: '' @ show_number (farmSize d) @ '' acres\<newline>\<newline>'' @
     ''1. Confirm & Register\<newline>'' @
     ''2. Cancel''"

definition countyMenu :: string where
  "countyMenu =
     ''CON Enter your county location:\<newline>'' @
     ''1. Nairobi\<newline>'' @
     ''2. Kiambu\<newline>'' @
     ''3. Machakos\<newline>'' @
     ''4. Nakuru\<newline>'' @
     ''5. Meru\<newline>'' @
     ''6. Kisumu\<newline>'' @
     ''7. Mombasa\<newline>'' @
     ''8. Other''"

definition farmSizePrompt :: string where
  "farmSizePrompt = ''CON Enter your farm size in acres:\<newline>'' @ ''(Example: 2.5 or 10)''"

definition farmSizeError :: string where
  "farmSizeError =
     ''CON Invalid farm size. Please enter a valid number:\<newline>'' @ ''(Example: 2.5 or 10)''"

definition counties :: "string \<rightharpoonup> string" where
  "counties =
     map_of [(''1'', ''Nairobi''), (''2'', ''Kiambu''), (''3'', ''Machakos''),
             (''4'', ''Nakuru''), (''5'', ''Meru''), (''6'', ''Kisumu''),
             (''7'', ''Mombasa'')]"

definition crops :: "string \<rightharpoonup> string" where
  "crops =
     map_of [(''1'', ''Maize''), (''2'', ''Wheat''), (''3'', ''Rice''), (''4'', ''Beans''),
             (''5'', ''Potatoes''), (''6'', ''Tea''), (''7'', ''Coffee''),
             (''8'', ''Sugarcane'')]"

text \<open>Lines 109-120: the status message for \<^verbatim>\<open>farmerDatabase[phoneNumber]\<close>.\<close>

definition registration_status :: "farmer option \<Rightarrow> string" where
  "registration_status found =
     (case found of
        None \<Rightarrow>
          ''END You are not registered yet.\<newline>'' @
          ''Please dial again and select option 1 to register.''
      | Some farmer \<Rightarrow>
          if farmer_truthy farmer then
            ''END Your Registration Details:\<newline>'' @
            ''Name: '' @ show_value (farmer_name farmer) @ ''\<newline>'' @
            ''County: '' @ show_value (farmer_county farmer) @ ''\<newline>'' @
            ''Crop: '' @ show_value (farmer_crop farmer) @ ''\<newline>'' @
            ''Farm Size: '' @ show_value (farmer_farmSize farmer) @ '' acres\<newline>'' @
            ''Registered: '' @ show_value (farmer_registrationDate farmer)
          else
            ''END You are not registered yet.\<newline>'' @
            ''Please dial again and select option 1 to register.'')"

subsection \<open>The request handler \<^verbatim>\<open>app.post('/ussd')\<close> (lines 35-298)\<close>

definition new_session :: "string \<Rightarrow> clock_reads \<Rightarrow> session" where
  "new_session phone clk =
     \<lparr>phoneNumber = phone, stage = MAIN_MENU,
      farmerData = \<lparr>name = None, county = None, crop = None, farmSize = None\<rparr>,
      lastActivity = now_activity clk, createdAt = now_created clk\<rparr>"

text \<open>What \<^verbatim>\<open>sessionData[sessionId]\<close> is when it is truthy: a stored session (an own
  property), or a value inherited from \<^verbatim>\<open>Object.prototype\<close>: one of its functions,
  \<^verbatim>\<open>Object.prototype\<close> itself (for the id \<^verbatim>\<open>__proto__\<close>), or a primitive (the string
  or number that a request with the id \<^verbatim>\<open>__proto__\<close> has left on
  \<^verbatim>\<open>Object.prototype\<close> as \<^verbatim>\<open>stage\<close> or \<^verbatim>\<open>lastActivity\<close>).\<close>

datatype inherited_session = FunctionObject string | PrototypeObject | Primitive

datatype session_ref = Stored session | Inherited inherited_session

fun inherited_of :: "jsval \<Rightarrow> inherited_session" where
  "inherited_of (Fn key) = FunctionObject key"
| "inherited_of ObjectPrototype = PrototypeObject"
| "inherited_of (Str s) = Primitive"
| "inherited_of (Num x) = Primitive"

text \<open>\<open>None\<close>: the lookup is falsy (\<^verbatim>\<open>undefined\<close>, or the number \<open>0\<close>).\<close>

definition session_lookup :: "state \<Rightarrow> string \<Rightarrow> session_ref option" where
  "session_lookup st sessionId =
     (case sessionData st sessionId of
        Some s \<Rightarrow> Some (Stored s)
      | None \<Rightarrow>
          (case object_prototype_get st sessionId of
             None \<Rightarrow> None
           | Some v \<Rightarrow> if truthy v then Some (Inherited (inherited_of v)) else None))"

text \<open>Line 67 on an inherited value: \<^verbatim>\<open>Object.prototype\<close> gets the property
  \<^verbatim>\<open>lastActivity\<close>; on a primitive the assignment is ignored.\<close>

fun touch_inherited :: "inherited_session \<Rightarrow> int \<Rightarrow> state \<Rightarrow> state" where
  "touch_inherited (FunctionObject key) now st = st"
| "touch_inherited PrototypeObject now st = st\<lparr>prototypeLastActivity := Some now\<rparr>"
| "touch_inherited Primitive now st = st"

text \<open>Lines 57-68: create the session, or bump \<^verbatim>\<open>lastActivity\<close>.\<close>

definition touch_session :: "clock_reads \<Rightarrow> string \<Rightarrow> string \<Rightarrow> state \<Rightarrow> state" where
  "touch_session clk sessionId phone st =
     (case session_lookup st sessionId of
        None \<Rightarrow> store_session sessionId (new_session phone clk) st
      | Some (Stored s) \<Rightarrow> store_session sessionId (s\<lparr>lastActivity := now_activity clk\<rparr>) st
      | Some (Inherited i) \<Rightarrow> touch_inherited i (now_activity clk) st)"

text \<open>Lines 98-133: the \<^verbatim>\<open>switch\<close> on a single entry.\<close>

definition main_menu_selection ::
  "string \<Rightarrow> string \<Rightarrow> string \<Rightarrow> session \<Rightarrow> state \<Rightarrow> string \<times> state" where
  "main_menu_selection sessionId phone cur session st =
     (if cur = ''1'' then
        (''CON Welcome to Farmer Registration\<newline>'' @ ''Please enter your full name:'',
         store_session sessionId (session\<lparr>stage := ENTER_NAME\<rparr>) st)
      else if cur = ''2'' then
        (registration_status (registry_get st phone), cleanupSession sessionId st)
      else if cur = ''3'' then
        (''END Thank you for using Farmer Registration Service.\<newline>'' @ ''Goodbye!'',
         cleanupSession sessionId st)
      else
        (''END Invalid option. Please try again.'', cleanupSession sessionId st))"

text \<open>Lines 148-172. The county stored is the value found by the lookup.\<close>

definition select_county ::
  "string \<Rightarrow> string \<Rightarrow> session \<Rightarrow> state \<Rightarrow> string \<times> state" where
  "select_county sessionId cur session st =
     (if cur = ''8'' then
        (''CON Please type your county name:'',
         store_session sessionId (session\<lparr>stage := ENTER_CUSTOM_COUNTY\<rparr>) st)
      else if js_truthy (table_get counties st cur) then
        (generateCropMenu,
         store_session sessionId
           (session\<lparr>farmerData := (farmerData session)\<lparr>county := table_get counties st cur\<rparr>,
                    stage := SELECT_CROP\<rparr>) st)
      else
        (''END Invalid selection. Please try again.'', cleanupSession sessionId st))"

text \<open>Lines 179-204.\<close>

definition select_crop ::
  "string \<Rightarrow> string \<Rightarrow> session \<Rightarrow> state \<Rightarrow> string \<times> state" where
  "select_crop sessionId cur session st =
     (if cur = ''9'' then
        (''CON Please type your crop type:'',
         store_session sessionId (session\<lparr>stage := ENTER_CUSTOM_CROP\<rparr>) st)
      else if js_truthy (table_get crops st cur) then
        (farmSizePrompt,
         store_session sessionId
           (session\<lparr>farmerData := (farmerData session)\<lparr>crop := table_get crops st cur\<rparr>,
                    stage := ENTER_FARM_SIZE\<rparr>) st)
      else
        (''END Invalid selection. Please try again.'', cleanupSession sessionId st))"

text \<open>Lines 212-224.\<close>

definition enter_farm_size ::
  "string \<Rightarrow> string \<Rightarrow> session \<Rightarrow> state \<Rightarrow> string \<times> state" where
  "enter_farm_size sessionId cur session st =
     (let size = parseFloat cur in
      if isNaN size \<or> le_zero size then
        (farmSizeError, st)
      else
        (let d = (farmerData session)\<lparr>farmSize := Some size\<rparr> in
         (generateConfirmation d,
          store_session sessionId
            (session\<lparr>farmerData := d, stage := CONFIRM_REGISTRATION\<rparr>) st)))"

text \<open>Lines 225-256.\<close>

definition confirm_registration ::
  "clock_reads \<Rightarrow> string \<Rightarrow> string \<Rightarrow> string \<Rightarrow> session \<Rightarrow> state \<Rightarrow> string \<times> state" where
  "confirm_registration clk sessionId phone cur session st =
     (if cur = ''1'' then
        (let d = farmerData session;
             registrationData =
               \<lparr>name = name d, county = county d, crop = crop d, farmSize = farmSize d,
                reg_phoneNumber = phone, registrationDate = now_locale clk\<rparr>;
             st' = registry_put phone registrationData st
         in (''END Registration successful!\<newline>'' @
             ''Thank you '' @ show_string (name d) @ ''.\<newline>'' @
             ''You will receive SMS confirmation shortly.\<newline>'' @
             ''For assistance, call 0700000000'',
             cleanupSession sessionId st'))
      else if cur = ''2'' then
        (''END Registration cancelled.\<newline>'' @ ''Dial again to start over.'',
         cleanupSession sessionId st)
      else
        (''END Invalid option. Registration cancelled.'', cleanupSession sessionId st))"

text \<open>Lines 257-275: the fallback for a stage and level that match no branch.\<close>

definition fallback ::
  "string \<Rightarrow> string \<Rightarrow> session \<Rightarrow> state \<Rightarrow> string \<times> state" where
  "fallback sessionId ctext session st =
     (if inputLevel ctext = 1 \<and> currentInput ctext \<in> set [''1'', ''2'', ''3''] then
        (generateMainMenu, store_session sessionId (session\<lparr>stage := MAIN_MENU\<rparr>) st)
      else if inputLevel ctext = 0 \<or> ctext = [] then
        (generateMainMenu, store_session sessionId (session\<lparr>stage := MAIN_MENU\<rparr>) st)
      else
        (''END An error occurred. Please dial again to restart.'',
         cleanupSession sessionId st))"

text \<open>Lines 93-275 when \<^verbatim>\<open>session\<close> is a stored session: the chain of branches, in the
  order of the source. \<open>session\<close> is the object stored under \<open>sessionId\<close> in \<open>st\<close>; an
  assignment to one of its properties is a store of the updated record.\<close>

definition stage_flow ::
  "clock_reads \<Rightarrow> string \<Rightarrow> string \<Rightarrow> string \<Rightarrow> session \<Rightarrow> state \<Rightarrow> string \<times> state" where
  "stage_flow clk sessionId phone ctext session st =
     (if ctext = [] then
        (generateMainMenu, store_session sessionId (session\<lparr>stage := MAIN_MENU\<rparr>) st)
      else if inputLevel ctext = 1 then
        main_menu_selection sessionId phone (currentInput ctext) session st
      else if stage session = ENTER_NAME \<and> inputLevel ctext = 2 then
        (countyMenu,
         store_session sessionId
           (session\<lparr>farmerData := (farmerData session)\<lparr>name := Some (currentInput ctext)\<rparr>,
                    stage := SELECT_COUNTY\<rparr>) st)
      else if stage session = SELECT_COUNTY \<and> inputLevel ctext = 3 then
        select_county sessionId (currentInput ctext) session st
      else if stage session = ENTER_CUSTOM_COUNTY \<and> inputLevel ctext = 4 then
        (generateCropMenu,
         store_session sessionId
           (session\<lparr>farmerData :=
                      (farmerData session)\<lparr>county := Some (Str (currentInput ctext))\<rparr>,
                    stage := SELECT_CROP\<rparr>) st)
      else if stage session = SELECT_CROP then
        select_crop sessionId (currentInput ctext) session st
      else if stage session = ENTER_CUSTOM_CROP then
        (farmSizePrompt,
         store_session sessionId
           (session\<lparr>farmerData :=
                      (farmerData session)\<lparr>crop := Some (Str (currentInput ctext))\<rparr>,
                    stage := ENTER_FARM_SIZE\<rparr>) st)
      else if stage session = ENTER_FARM_SIZE then
        enter_farm_size sessionId (currentInput ctext) session st
      else if stage session = CONFIRM_REGISTRATION then
        confirm_registration clk sessionId phone (currentInput ctext) session st
      else fallback sessionId ctext session st)"

text \<open>\<^verbatim>\<open>session.stage\<close> when \<^verbatim>\<open>session\<close> is an inherited value: the own property of
  the function if it has been assigned, else the property of \<^verbatim>\<open>Object.prototype\<close>
  (which every value inherits); \<open>None\<close> is \<^verbatim>\<open>undefined\<close>.\<close>

fun inherited_stage :: "state \<Rightarrow> inherited_session \<Rightarrow> stage option" where
  "inherited_stage st (FunctionObject key) =
     (case functionStage st key of Some s \<Rightarrow> Some s | None \<Rightarrow> prototypeStage st)"
| "inherited_stage st PrototypeObject = prototypeStage st"
| "inherited_stage st Primitive = prototypeStage st"

text \<open>\<^verbatim>\<open>session.stage = x\<close> on an inherited value.\<close>

fun assign_stage :: "inherited_session \<Rightarrow> stage \<Rightarrow> state \<Rightarrow> state" where
  "assign_stage (FunctionObject key) x st = st\<lparr>functionStage := (functionStage st)(key \<mapsto> x)\<rparr>"
| "assign_stage PrototypeObject x st = st\<lparr>prototypeStage := Some x\<rparr>"
| "assign_stage Primitive x st = st"

datatype js_error = TypeError

text \<open>Lines 93-275 when \<^verbatim>\<open>session\<close> is an inherited value: the response computed, or
  the error thrown. Such a value has no \<^verbatim>\<open>farmerData\<close>, so every statement that reads
  or assigns a property of \<^verbatim>\<open>session.farmerData\<close> throws a \<^verbatim>\<open>TypeError\<close>. At
  \<open>CONFIRM_REGISTRATION\<close> with entry \<^verbatim>\<open>1\<close> the record, spread from an undefined
  \<^verbatim>\<open>farmerData\<close>, is assigned to the registry (line 236) before line 239 reads
  \<^verbatim>\<open>session.farmerData.name\<close> and throws.\<close>

definition inherited_flow ::
  "clock_reads \<Rightarrow> string \<Rightarrow> string \<Rightarrow> string \<Rightarrow> inherited_session \<Rightarrow> state
     \<Rightarrow> (js_error + string) \<times> state" where
  "inherited_flow clk sessionId phone ctext session st =
     (let cur = currentInput ctext; stage = inherited_stage st session in
      if ctext = [] then (Inr generateMainMenu, assign_stage session MAIN_MENU st)
      else if inputLevel ctext = 1 then
        (if cur = ''1'' then
           (Inr (''CON Welcome to Farmer Registration\<newline>'' @ ''Please enter your full name:''),
            assign_stage session ENTER_NAME st)
         else if cur = ''2'' then
           (Inr (registration_status (registry_get st phone)), cleanupSession sessionId st)
         else if cur = ''3'' then
           (Inr (''END Thank you for using Farmer Registration Service.\<newline>'' @ ''Goodbye!''),
            cleanupSession sessionId st)
         else (Inr ''END Invalid option. Please try again.'', cleanupSession sessionId st))
      else if stage = Some ENTER_NAME \<and> inputLevel ctext = 2 then (Inl TypeError, st)
      else if stage = Some SELECT_COUNTY \<and> inputLevel ctext = 3 then
        (if cur = ''8'' then
           (Inr ''CON Please type your county name:'', assign_stage session ENTER_CUSTOM_COUNTY st)
         else if js_truthy (table_get counties st cur) then (Inl TypeError, st)
         else (Inr ''END Invalid selection. Please try again.'', cleanupSession sessionId st))
      else if stage = Some ENTER_CUSTOM_COUNTY \<and> inputLevel ctext = 4 then (Inl TypeError, st)
      else if stage = Some SELECT_CROP then
        (if cur = ''9'' then
           (Inr ''CON Please type your crop type:'', assign_stage session ENTER_CUSTOM_CROP st)
         else if js_truthy (table_get crops st cur) then (Inl TypeError, st)
         else (Inr ''END Invalid selection. Please try again.'', cleanupSession sessionId st))
      else if stage = Some ENTER_CUSTOM_CROP then (Inl TypeError, st)
      else if stage = Some ENTER_FARM_SIZE then
        (if isNaN (parseFloat cur) \<or> le_zero (parseFloat cur) then (Inr farmSizeError, st)
         else (Inl TypeError, st))
      else if stage = Some CONFIRM_REGISTRATION then
        (if cur = ''1'' then
           (Inl TypeError,
            registry_put phone
              \<lparr>name = None, county = None, crop = None, farmSize = None,
               reg_phoneNumber = phone, registrationDate = now_locale clk\<rparr> st)
         else if cur = ''2'' then
           (Inr (''END Registration cancelled.\<newline>'' @ ''Dial again to start over.''),
            cleanupSession sessionId st)
         else (Inr ''END Invalid option. Registration cancelled.'', cleanupSession sessionId st))
      else if inputLevel ctext = 1 \<and> cur \<in> set [''1'', ''2'', ''3''] then
        (Inr generateMainMenu, assign_stage session MAIN_MENU st)
      else if inputLevel ctext = 0 \<or> ctext = [] then
        (Inr generateMainMenu, assign_stage session MAIN_MENU st)
      else (Inr ''END An error occurred. Please dial again to restart.'',
            cleanupSession sessionId st))"

text \<open>Lines 277-282: \<^verbatim>\<open>!response || response.trim() === ''\<close>.\<close>

definition ensure_response :: "string \<Rightarrow> string \<times> state \<Rightarrow> string \<times> state" where
  "ensure_response sessionId rs =
     (case rs of (response, st) \<Rightarrow>
        if response = [] \<or> strip_ws response = [] then
          (''END System error. Please try again later.'', cleanupSession sessionId st)
        else (response, st))"

text \<open>The response that line 297 sends.\<close>

definition answered :: "string \<times> state \<Rightarrow> (js_error + string) \<times> state" where
  "answered rs = (Inr (fst rs), snd rs)"

text \<open>The handler: the response sent (or the error thrown, in which case the handler
  sends nothing) and the state left. Lines 74-90 (no session after the lookup) are kept
  as in the source.\<close>

definition ussd_post ::
  "clock_reads \<Rightarrow> string \<Rightarrow> string \<Rightarrow> string \<Rightarrow> state \<Rightarrow> (js_error + string) \<times> state" where
  "ussd_post clk sessionId phone ctext st =
     (let st1 = touch_session clk sessionId phone st in
      case session_lookup st1 sessionId of
        None \<Rightarrow>
          (Inr generateMainMenu,
           store_session sessionId ((new_session phone clk)\<lparr>stage := MAIN_MENU\<rparr>) st1)
      | Some (Stored session) \<Rightarrow>
          answered (ensure_response sessionId (stage_flow clk sessionId phone ctext session st1))
      | Some (Inherited session) \<Rightarrow>
          (case inherited_flow clk sessionId phone ctext session st1 of
             (Inl e, st2) \<Rightarrow> (Inl e, st2)
           | (Inr response, st2) \<Rightarrow> answered (ensure_response sessionId (response, st2))))"

subsection \<open>The response object and the timer of the deadline (lines 43-49)\<close>








subsection \<open>The expiry sweeper (lines 21-29)\<close>

text \<open>One iteration of the sweeper's \<^verbatim>\<open>forEach\<close>.\<close>

definition sweep_one :: "int \<Rightarrow> string \<Rightarrow> (string \<rightharpoonup> session) \<Rightarrow> (string \<rightharpoonup> session)" where
  "sweep_one now sessionId sd =
     (case sd sessionId of
        Some s \<Rightarrow> if now - lastActivity s > SESSION_TIMEOUT then sd(sessionId := None) else sd
      | None \<Rightarrow> sd)"

text \<open>One tick: the loop over \<open>keys\<close>, the array \<^verbatim>\<open>Object.keys(sessionData)\<close> taken
  when the tick starts.\<close>

definition sweeper_tick :: "int \<Rightarrow> string list \<Rightarrow> state \<Rightarrow> state" where
  "sweeper_tick now keys st = st\<lparr>sessionData := fold (sweep_one now) keys (sessionData st)\<rparr>"

subsection \<open>Reachable states\<close>

definition initial_state :: state where
  "initial_state =
     \<lparr>sessionData = Map.empty, farmerDatabase = Map.empty, registryPrototype = None,
      prototypeStage = None, prototypeLastActivity = None, functionStage = Map.empty\<rparr>"

text \<open>The states reached from the state at start-up by requests (with any session id,
  phone number and text) and sweeper ticks. The timer callback has no access to the
  state.\<close>

inductive reachable :: "state \<Rightarrow> bool" where
  start: "reachable initial_state"
| request: "reachable st \<Longrightarrow> reachable (snd (ussd_post clk sessionId phone ctext st))"
| sweep: "reachable st \<Longrightarrow> set keys = dom (sessionData st) \<Longrightarrow> reachable (sweeper_tick now keys st)"

subsection \<open>Dialogues, the store invariant and response directives\<close>

text \<open>A dialogue: the requests of one caller on one session id, handled one after the
  other; the responses (or errors) in order and the state left.\<close>

fun dialogue ::
  "string \<Rightarrow> string \<Rightarrow> (clock_reads \<times> string) list \<Rightarrow> state
     \<Rightarrow> (js_error + string) list \<times> state" where
  "dialogue sessionId phone [] st = ([], st)"
| "dialogue sessionId phone ((clk, ctext) # rest) st =
     (case ussd_post clk sessionId phone ctext st of
        (r, st1) \<Rightarrow> (case dialogue sessionId phone rest st1 of (rs, st2) \<Rightarrow> (r # rs, st2)))"

text \<open>The properties of \<^verbatim>\<open>farmerData\<close> that the stages passed before a stage have
  assigned: the name after \<open>ENTER_NAME\<close>, the county after the two county stages, the
  crop after the two crop stages, the farm size after \<open>ENTER_FARM_SIZE\<close>.\<close>

fun required :: "stage \<Rightarrow> farmer_data \<Rightarrow> bool" where
  "required MAIN_MENU d = True"
| "required ENTER_NAME d = True"
| "required SELECT_COUNTY d = (name d \<noteq> None)"
| "required ENTER_CUSTOM_COUNTY d = (name d \<noteq> None)"
| "required SELECT_CROP d = (name d \<noteq> None \<and> county d \<noteq> None)"
| "required ENTER_CUSTOM_CROP d = (name d \<noteq> None \<and> county d \<noteq> None)"
| "required ENTER_FARM_SIZE d = (name d \<noteq> None \<and> county d \<noteq> None \<and> crop d \<noteq> None)"
| "required CONFIRM_REGISTRATION d =
     (name d \<noteq> None \<and> county d \<noteq> None \<and> crop d \<noteq> None \<and> farmSize d \<noteq> None)"

definition store_inv :: "state \<Rightarrow> bool" where
  "store_inv st = (\<forall>k s. sessionData st k = Some s \<longrightarrow> required (stage s) (farmerData s))"

text \<open>A response that starts with one of the two directive prefixes.\<close>

definition directive :: "string \<Rightarrow> bool" where
  "directive r = (take 4 r = ''CON '' \<or> take 4 r = ''END '')"

text \<open>A property of the response of a request, when the handler computes one.\<close>

definition computed :: "(js_error + string) \<Rightarrow> (string \<Rightarrow> bool) \<Rightarrow> bool" where
  "computed outcome P = (case outcome of Inl e \<Rightarrow> True | Inr r \<Rightarrow> P r)"

subsection \<open>Example states\<close>

definition example_clock :: clock_reads where
  "example_clock =
     \<lparr>now_activity = 2000, now_created = 2000, now_locale = ''15/01/2025, 10:00:00''\<rparr>"

definition farm_size_session :: session where
  "farm_size_session =
     \<lparr>phoneNumber = ''+254700000003'', stage = ENTER_FARM_SIZE,
      farmerData = \<lparr>name = Some ''Jane Wanjiru'', county = Some (Str ''Nairobi''),
                    crop = Some (Str ''Maize''), farmSize = None\<rparr>,
      lastActivity = 1000, createdAt = 1000\<rparr>"

definition farm_size_example :: state where
  "farm_size_example = initial_state\<lparr>sessionData := [''s1'' \<mapsto> farm_size_session]\<rparr>"

definition registered_example :: state where
  "registered_example =
     initial_state\<lparr>farmerDatabase :=
        [''+254700000003'' \<mapsto>
           \<lparr>name = Some ''J. Wanjiru'', county = Some (Str ''Meru''), crop = Some (Str ''Tea''),
            farmSize = Some (Fin (7 / 2)), reg_phoneNumber = ''+254700000003'',
            registrationDate = ''01/01/2024, 09:00:00''\<rparr>]\<rparr>"

definition status_example :: state where
  "status_example = registered_example\<lparr>sessionData := [''s1'' \<mapsto> farm_size_session]\<rparr>"

definition confirm_example :: state where
  "confirm_example =
     snd (dialogue ''ATUid_1'' ''+254700000003''
           [(example_clock, []), (example_clock, ''1''), (example_clock, ''1*Jane Wanjiru''),
            (example_clock, ''1*Jane Wanjiru*1''), (example_clock, ''1*Jane Wanjiru*1*1''),
            (example_clock, ''1*Jane Wanjiru*1*1*3.5'')] initial_state)"

definition county_example :: state where
  "county_example =
     initial_state\<lparr>sessionData :=
       [''s1'' \<mapsto> \<lparr>phoneNumber = ''+254700000003'', stage = SELECT_COUNTY,
                  farmerData = \<lparr>name = Some ''Jane Wanjiru'', county = None, crop = None,
                                farmSize = None\<rparr>,
                  lastActivity = 1000, createdAt = 1000\<rparr>]\<rparr>"

definition sweep_example :: state where
  "sweep_example =
     initial_state\<lparr>sessionData :=
        [''old'' \<mapsto> (new_session ''+254700000001''
                      \<lparr>now_activity = 0, now_created = 0, now_locale = []\<rparr>),
         ''recent'' \<mapsto> (new_session ''+254700000002''
                      \<lparr>now_activity = 200000, now_created = 200000, now_locale = []\<rparr>)]\<rparr>"

section \<open>Properties\<close>

declare strip_ws.simps [simp del]

declare decimal.simps [simp del] declen.simps [simp del]

subsection \<open>Evaluation of the number functions and of the decoder on the examples\<close>

lemma floor_rat_numeral_div: "\<lfloor>numeral a / numeral b :: rat\<rfloor> = numeral a div numeral b"
  using floor_divide_of_int_eq[of "numeral a" "numeral b", where ?'a = rat] by simp

lemma strip_ws_none: "List.find (\<lambda>p. starts_with p s) ws_seqs = None \<Longrightarrow> strip_ws s = s"
  by (subst strip_ws.simps) simp

lemma floor_log2_values:
  "floor_log2 (7 / 2) = 1" "floor_log2 3 = 1" "floor_log2 4 = 2" "floor_log2 (18 / 5) = 1"
  "floor_log2 5 = 2"
  by code_simp+

lemma round_double_values:
  "round_double (7 / 2) = Fin (7 / 2)" "round_double 3 = Fin 3" "round_double 4 = Fin 4"
  "round_double 5 = Fin 5" "round_double (18 / 5) \<noteq> Fin (7 / 2)"
  by (simp_all add: round_double_def floor_log2_values pow_def round_half_even_def Let_def
      floor_rat_numeral_div)

lemma parseFloat_values:
  "parseFloat ''3.5'' = Fin (7 / 2)" "parseFloat ''5'' = Fin 5"
  "parseFloat ''abc'' = NaN" "parseFloat [] = NaN"
  by (simp_all add: parseFloat_def strip_ws_none ws_seqs_def starts_with_def
      unsigned_literal_def is_digit_def digits_val_def exponent_part_def pow_def
      to_double_def round_double_values)

lemma decade_7_2: "decade (7 / 2) = 1"
  by code_simp

lemma decimal_35: "decimal 35 = ''35''"
  by code_simp

lemma pick_7_2: "pick (7 / 2) 1 (Suc 0) = None" "pick (7 / 2) 1 2 = Some 35"
  by (simp_all add: pick_def pow_def to_double_def round_double_values Let_def
      floor_rat_numeral_div)

lemma shortest_digits_7_2: "shortest_digits (7 / 2) = (35, 2, 1)"
  by (simp add: shortest_digits_def decade_7_2 digit_counts_def pick_7_2)

lemma positive_to_string_7_2: "positive_to_string (7 / 2) = ''3.5''"
  by (simp add: positive_to_string_def shortest_digits_7_2 decimal_35)

lemma number_to_string_7_2: "number_to_string (Fin (7 / 2)) = ''3.5''"
  by (simp add: positive_to_string_7_2)

lemma decode_values:
  "inputLevel ''1'' = 1" "currentInput ''1'' = ''1''"
  "inputLevel ''5'' = 1" "currentInput ''5'' = ''5''"
  "inputLevel [] = 0" "currentInput [] = []"
  "inputLevel ''1*Jane Wanjiru'' = 2" "currentInput ''1*Jane Wanjiru'' = ''Jane Wanjiru''"
  "inputLevel ''1*Jane Wanjiru*1'' = 3" "currentInput ''1*Jane Wanjiru*1'' = ''1''"
  "inputLevel ''1*Jane Wanjiru*1*1'' = 4" "currentInput ''1*Jane Wanjiru*1*1'' = ''1''"
  "inputLevel ''1*Jane Wanjiru*1*1*3.5'' = 5" "currentInput ''1*Jane Wanjiru*1*1*3.5'' = ''3.5''"
  "inputLevel ''1*Jane Wanjiru*1*1*abc'' = 5" "currentInput ''1*Jane Wanjiru*1*1*abc'' = ''abc''"
  "inputLevel ''1*Jane Wanjiru*1*1*3.5*1'' = 6" "currentInput ''1*Jane Wanjiru*1*1*3.5*1'' = ''1''"
  by (simp_all add: inputLevel_def currentInput_def userInputs_def)

subsection \<open>Input decoding\<close>

lemma js_split_nonempty: "js_split sep s \<noteq> []"
  by (induction s) (auto split: list.splits)

lemma js_join_Cons_Cons: "js_join sep ((c # seg) # segs) = c # js_join sep (seg # segs)"
  by (cases segs) simp_all

lemma js_join_split: "js_join sep (js_split sep s) = s"
proof (induction s)
  case Nil
  show ?case by simp
next
  case (Cons c cs)
  show ?case
  proof (cases "c = sep")
    case True
    with Cons js_split_nonempty[of sep cs] show ?thesis
      by (cases "js_split sep cs") simp_all
  next
    case False
    with Cons js_split_nonempty[of sep cs] show ?thesis
      by (cases "js_split sep cs") (simp_all add: js_join_Cons_Cons)
  qed
qed

lemma js_split_sep_free: "sep \<notin> set (concat (js_split sep s))"
  by (induction s) (auto split: list.splits)

text \<open>Claim C6. Decoding is a total function of the cumulative text. The empty text
  has level 0 and the empty string as latest entry; the text \<^verbatim>\<open>1*John*2\<close> has the
  entries \<^verbatim>\<open>1\<close>, \<^verbatim>\<open>John\<close>, \<^verbatim>\<open>2\<close>, latest entry \<^verbatim>\<open>2\<close> and level 3; the text
  \<^verbatim>\<open>**\<close> has level 0. In general the segments produced by the split join back to
  the text with \<^verbatim>\<open>*\<close> between them and contain no \<^verbatim>\<open>*\<close>; the entries are the
  non-empty segments in order, the latest entry is the last of them (the empty string
  if there is none) and the level is their number.\<close>

theorem decode_entries:
  "userInputs [] = [] \<and> currentInput [] = [] \<and> inputLevel [] = 0
   \<and> userInputs ''1*John*2'' = [''1'', ''John'', ''2'']
   \<and> currentInput ''1*John*2'' = ''2'' \<and> inputLevel ''1*John*2'' = 3
   \<and> userInputs ''**'' = [] \<and> currentInput ''**'' = [] \<and> inputLevel ''**'' = 0
   \<and> js_join (CHR ''*'') (js_split (CHR ''*'') ctext) = ctext
   \<and> CHR ''*'' \<notin> set (concat (js_split (CHR ''*'') ctext))
   \<and> userInputs ctext = filter (\<lambda>seg. seg \<noteq> []) (js_split (CHR ''*'') ctext)
   \<and> currentInput ctext = (if userInputs ctext = [] then [] else last (userInputs ctext))
   \<and> inputLevel ctext = length (userInputs ctext)"
proof -
  have empty: "userInputs [] = [] \<and> currentInput [] = [] \<and> inputLevel [] = 0"
    by (simp add: userInputs_def currentInput_def inputLevel_def)
  have john: "userInputs ''1*John*2'' = [''1'', ''John'', ''2'']
      \<and> currentInput ''1*John*2'' = ''2'' \<and> inputLevel ''1*John*2'' = 3"
    by (simp add: userInputs_def currentInput_def inputLevel_def)
  have stars: "userInputs ''**'' = [] \<and> currentInput ''**'' = [] \<and> inputLevel ''**'' = 0"
    by (simp add: userInputs_def currentInput_def inputLevel_def)
  have nonempty: "[] \<notin> set (userInputs ctext)"
    by (simp add: userInputs_def)
  have cur: "currentInput ctext = (if userInputs ctext = [] then [] else last (userInputs ctext))"
    using nonempty last_in_set[of "userInputs ctext"]
    by (auto simp: currentInput_def Let_def split: list.splits)
  have entries: "userInputs ctext = filter (\<lambda>seg. seg \<noteq> []) (js_split (CHR ''*'') ctext)"
    by (simp add: userInputs_def)
  have level: "inputLevel ctext = length (userInputs ctext)"
    by (simp add: inputLevel_def)
  from empty john stars cur entries level
    js_join_split[of "CHR ''*''" ctext] js_split_sep_free[of "CHR ''*''" ctext]
  show ?thesis by (intro conjI) (erule conjunct1 conjunct2 | assumption | (drule conjunct2, erule conjunct1 conjunct2))+
qed

subsection \<open>Session deletion\<close>

text \<open>Claim C8. Deleting a session twice leaves the same state as deleting it once,
  whether or not the session was stored: the second call changes nothing. The function
  is total (it has no failing result), removes exactly the entry of the given id and
  leaves the registry alone.\<close>

theorem cleanupSession_idempotent:
  "cleanupSession sessionId (cleanupSession sessionId st) = cleanupSession sessionId st
   \<and> sessionData (cleanupSession sessionId st) = (sessionData st)(sessionId := None)
   \<and> farmerDatabase (cleanupSession sessionId st) = farmerDatabase st"
  by (auto simp: cleanupSession_def)

subsection \<open>The expiry sweeper\<close>

lemma fold_sweep_one:
  "fold (sweep_one now) keys sd k =
     (case sd k of
        None \<Rightarrow> None
      | Some s \<Rightarrow> if k \<in> set keys \<and> now - lastActivity s > SESSION_TIMEOUT then None else Some s)"
proof (induction keys arbitrary: sd)
  case Nil
  show ?case by (simp split: option.splits)
next
  case (Cons x xs)
  show ?case
    by (simp add: Cons.IH) (auto simp: sweep_one_def split: option.splits)
qed

text \<open>Claim C7. After one tick of the sweeper at time \<open>now\<close>, run over the keys of the
  store, every session idle for more than the timeout of 5 minutes (300000 ms) is
  absent, every session idle for at most the timeout is still stored unchanged, no
  session appears, and the registry is unchanged.\<close>

theorem sweeper_tick_expiry:
  assumes "set keys = dom (sessionData st)"
  shows "SESSION_TIMEOUT = 300000
    \<and> (\<forall>k s. sessionData st k = Some s \<and> now - lastActivity s > SESSION_TIMEOUT
          \<longrightarrow> sessionData (sweeper_tick now keys st) k = None)
    \<and> (\<forall>k s. sessionData st k = Some s \<and> now - lastActivity s \<le> SESSION_TIMEOUT
          \<longrightarrow> sessionData (sweeper_tick now keys st) k = Some s)
    \<and> (\<forall>k. sessionData st k = None \<longrightarrow> sessionData (sweeper_tick now keys st) k = None)
    \<and> farmerDatabase (sweeper_tick now keys st) = farmerDatabase st"
proof -
  have "\<And>k s. sessionData st k = Some s \<Longrightarrow> k \<in> set keys"
    using assms by auto
  then show ?thesis
    by (auto simp: sweeper_tick_def fold_sweep_one SESSION_TIMEOUT_def)
qed

theorem sweeper_tick_expiry_witness:
  "set [''old'', ''recent''] = dom (sessionData sweep_example)
   \<and> sessionData (sweeper_tick 400000 [''old'', ''recent''] sweep_example) ''old'' = None
   \<and> sessionData (sweeper_tick 400000 [''old'', ''recent''] sweep_example) ''recent''
       = Some (new_session ''+254700000002''
                 \<lparr>now_activity = 200000, now_created = 200000, now_locale = []\<rparr>)"
proof -
  have keys: "set [''old'', ''recent''] = dom (sessionData sweep_example)"
    by (auto simp: sweep_example_def)
  note tick = sweeper_tick_expiry[OF keys, of 400000]
  have old: "sessionData sweep_example ''old''
      = Some (new_session ''+254700000001''
                \<lparr>now_activity = 0, now_created = 0, now_locale = []\<rparr>)"
    by (simp add: sweep_example_def)
  have recent: "sessionData sweep_example ''recent''
      = Some (new_session ''+254700000002''
                \<lparr>now_activity = 200000, now_created = 200000, now_locale = []\<rparr>)"
    by (simp add: sweep_example_def)
  from tick old have gone:
    "sessionData (sweeper_tick 400000 [''old'', ''recent''] sweep_example) ''old'' = None"
    by (simp add: new_session_def)
  from tick recent have kept:
    "sessionData (sweeper_tick 400000 [''old'', ''recent''] sweep_example) ''recent''
      = Some (new_session ''+254700000002''
                \<lparr>now_activity = 200000, now_created = 200000, now_locale = []\<rparr>)"
    by (simp add: new_session_def)
  from keys gone kept show ?thesis by simp
qed

subsection \<open>The shape of a response\<close>

text \<open>Every branch of the handler builds its response from a literal that starts with
  \<^verbatim>\<open>CON\<close> or \<^verbatim>\<open>END\<close> and a space, so the safeguard of lines 277-282 never
  replaces it.\<close>

lemma strip_ws_C: "strip_ws (CHR ''C'' # r) = CHR ''C'' # r"
  by (subst strip_ws.simps) (simp add: ws_seqs_def starts_with_def)

lemma strip_ws_E: "strip_ws (CHR ''E'' # r) = CHR ''E'' # r"
  by (subst strip_ws.simps) (simp add: ws_seqs_def starts_with_def)

lemma ensure_response_directive:
  assumes "directive (fst rs)"
  shows "ensure_response sessionId rs = rs"
proof -
  obtain r st where rs: "rs = (r, st)" by (cases rs)
  from assms rs consider r' where "r = CHR ''C'' # r'" | r' where "r = CHR ''E'' # r'"
    by (cases r) (auto simp: directive_def)
  then show ?thesis
    by cases (simp_all add: rs ensure_response_def strip_ws_C strip_ws_E)
qed

lemma directive_menus:
  "directive generateMainMenu" "directive generateCropMenu" "directive countyMenu"
  "directive farmSizePrompt" "directive farmSizeError" "directive (generateConfirmation d)"
  "directive (registration_status found)"
  by (simp_all add: directive_def generateMainMenu_def generateCropMenu_def countyMenu_def
      farmSizePrompt_def farmSizeError_def generateConfirmation_def registration_status_def
      split: option.splits)

lemma branch_directive:
  "directive (fst (main_menu_selection sessionId phone cur s st))"
  "directive (fst (select_county sessionId cur s st))"
  "directive (fst (select_crop sessionId cur s st))"
  "directive (fst (enter_farm_size sessionId cur s st))"
  "directive (fst (confirm_registration clk sessionId phone cur s st))"
  "directive (fst (fallback sessionId ctext s st))"
  by (simp_all add: main_menu_selection_def select_county_def select_crop_def
      enter_farm_size_def confirm_registration_def fallback_def Let_def directive_menus)
    (simp_all add: directive_def)

lemma stage_flow_directive: "directive (fst (stage_flow clk sessionId phone ctext s st))"
  by (simp add: stage_flow_def directive_menus branch_directive)

lemma inherited_flow_directive:
  "computed (fst (inherited_flow clk sessionId phone ctext i st)) directive"
  by (simp add: inherited_flow_def Let_def computed_def directive_menus
      if_distrib[of "\<lambda>x. case_sum (\<lambda>e. True) directive (fst x)"]
      split del: if_split cong: if_cong)
    (simp add: directive_def)

lemma object_prototype_get_sessionData [simp]:
  "object_prototype_get (st\<lparr>sessionData := sd\<rparr>) key = object_prototype_get st key"
  by (simp add: object_prototype_get_def)

lemma registry_get_sessionData [simp]:
  "registry_get (st\<lparr>sessionData := sd\<rparr>) phone = registry_get st phone"
  by (simp add: registry_get_def cong: option.case_cong if_cong)

lemma session_lookup_stored:
  "sessionData st sessionId = Some s \<Longrightarrow> session_lookup st sessionId = Some (Stored s)"
  by (simp add: session_lookup_def)

lemma session_lookup_None:
  "session_lookup st sessionId = None \<Longrightarrow> sessionData st sessionId = None"
  by (simp add: session_lookup_def split: option.splits)

lemma session_lookup_Inherited:
  "session_lookup st sessionId = Some (Inherited i) \<Longrightarrow> sessionData st sessionId = None"
  by (simp add: session_lookup_def split: option.splits)

lemma session_lookup_touch_inherited:
  assumes "session_lookup st sessionId = Some (Inherited i)"
  shows "session_lookup (touch_inherited i now st) sessionId = Some (Inherited i)"
proof (cases i)
  case PrototypeObject
  from assms obtain v where v: "object_prototype_get st sessionId = Some v"
    "inherited_of v = PrototypeObject" and none: "sessionData st sessionId = None"
    by (auto simp: session_lookup_def PrototypeObject split: option.splits if_splits)
  from v(2) have "v = ObjectPrototype" by (cases v) simp_all
  with v(1) have "object_prototype_get (st\<lparr>prototypeLastActivity := Some now\<rparr>) sessionId
      = Some ObjectPrototype"
    by (auto simp: object_prototype_get_def split: if_splits)
  with none show ?thesis
    by (simp add: PrototypeObject session_lookup_def)
qed (use assms in simp_all)

lemma ussd_post_stored:
  assumes "sessionData st sessionId = Some s"
  shows "ussd_post clk sessionId phone ctext st =
           answered (stage_flow clk sessionId phone ctext (s\<lparr>lastActivity := now_activity clk\<rparr>)
             (store_session sessionId (s\<lparr>lastActivity := now_activity clk\<rparr>) st))"
proof -
  have "session_lookup (store_session sessionId (s\<lparr>lastActivity := now_activity clk\<rparr>) st) sessionId
      = Some (Stored (s\<lparr>lastActivity := now_activity clk\<rparr>))"
    by (simp add: session_lookup_def store_session_def)
  then show ?thesis
    by (simp add: ussd_post_def touch_session_def session_lookup_stored[OF assms]
        ensure_response_directive stage_flow_directive)
qed

lemma ussd_post_unseen:
  assumes "session_lookup st sessionId = None"
  shows "ussd_post clk sessionId phone ctext st =
           answered (stage_flow clk sessionId phone ctext (new_session phone clk)
             (store_session sessionId (new_session phone clk) st))"
proof -
  have "session_lookup (store_session sessionId (new_session phone clk) st) sessionId
      = Some (Stored (new_session phone clk))"
    by (simp add: session_lookup_def store_session_def)
  then show ?thesis
    by (simp add: ussd_post_def touch_session_def assms
        ensure_response_directive stage_flow_directive)
qed

lemma ussd_post_inherited:
  assumes "session_lookup st sessionId = Some (Inherited i)"
  shows "ussd_post clk sessionId phone ctext st =
           inherited_flow clk sessionId phone ctext i (touch_inherited i (now_activity clk) st)"
proof -
  let ?st1 = "touch_inherited i (now_activity clk) st"
  obtain outcome st2 where flow: "inherited_flow clk sessionId phone ctext i ?st1 = (outcome, st2)"
    by (cases "inherited_flow clk sessionId phone ctext i ?st1")
  have "computed outcome directive"
    using inherited_flow_directive[of clk sessionId phone ctext i ?st1] by (simp add: flow)
  then have "(case (outcome, st2) of
        (Inl e, st2) \<Rightarrow> (Inl e, st2)
      | (Inr response, st2) \<Rightarrow> answered (ensure_response sessionId (response, st2)))
      = (outcome, st2)"
    by (cases outcome) (simp_all add: computed_def ensure_response_directive answered_def)
  then show ?thesis
    by (simp add: ussd_post_def touch_session_def assms
        session_lookup_touch_inherited[OF assms] flow)
qed

text \<open>The handler by the three cases of the lookup of line 57: the safeguard of lines
  277-282 and the branch of lines 74-90 never replace the response computed by lines
  93-275.\<close>

lemma ussd_post_eq:
  "ussd_post clk sessionId phone ctext st =
     (case session_lookup st sessionId of
        None \<Rightarrow>
          answered (stage_flow clk sessionId phone ctext (new_session phone clk)
            (store_session sessionId (new_session phone clk) st))
      | Some (Stored s) \<Rightarrow>
          answered (stage_flow clk sessionId phone ctext (s\<lparr>lastActivity := now_activity clk\<rparr>)
            (store_session sessionId (s\<lparr>lastActivity := now_activity clk\<rparr>) st))
      | Some (Inherited i) \<Rightarrow>
          inherited_flow clk sessionId phone ctext i (touch_inherited i (now_activity clk) st))"
proof (cases "session_lookup st sessionId")
  case None
  then show ?thesis by (simp add: ussd_post_unseen)
next
  case (Some ref)
  show ?thesis
  proof (cases ref)
    case (Stored s)
    with Some have "sessionData st sessionId = Some s"
      by (auto simp: session_lookup_def split: option.splits if_splits)
    then show ?thesis by (simp add: Some Stored ussd_post_stored)
  next
    case (Inherited i)
    with Some show ?thesis by (simp add: ussd_post_inherited)
  qed
qed

text \<open>For every request the response, when the handler computes one, is not empty and
  starts with a directive prefix; for a session id whose lookup is a stored session or
  is falsy the handler computes one. A response that is empty or only white space would
  be replaced by the system-error message and the session deleted.\<close>

lemma ussd_post_response_shape:
  "computed (fst (ussd_post clk sessionId phone ctext st)) (\<lambda>r. r \<noteq> [] \<and> directive r)
   \<and> ((\<forall>i. session_lookup st sessionId \<noteq> Some (Inherited i)) \<longrightarrow>
        (\<exists>r. fst (ussd_post clk sessionId phone ctext st) = Inr r))
   \<and> ensure_response sessionId ([], st) =
       (''END System error. Please try again later.'', cleanupSession sessionId st)
   \<and> ensure_response sessionId (''  '', st) =
       (''END System error. Please try again later.'', cleanupSession sessionId st)"
proof -
  have ne: "directive r \<Longrightarrow> r \<noteq> []" for r
    by (auto simp: directive_def)
  have "computed (fst (ussd_post clk sessionId phone ctext st)) directive"
    using inherited_flow_directive
    by (simp add: ussd_post_eq answered_def computed_def stage_flow_directive
        split: option.splits session_ref.splits sum.splits)
  then have shape:
    "computed (fst (ussd_post clk sessionId phone ctext st)) (\<lambda>r. r \<noteq> [] \<and> directive r)"
    using ne by (auto simp: computed_def split: sum.splits)
  have sent: "(\<forall>i. session_lookup st sessionId \<noteq> Some (Inherited i)) \<longrightarrow>
        (\<exists>r. fst (ussd_post clk sessionId phone ctext st) = Inr r)"
    by (simp add: ussd_post_eq answered_def split: option.splits session_ref.splits)
  have "strip_ws ''  '' = []"
    by (subst strip_ws.simps, simp add: ws_seqs_def starts_with_def)+
  then have
    "ensure_response sessionId ([], st) =
       (''END System error. Please try again later.'', cleanupSession sessionId st)"
    "ensure_response sessionId (''  '', st) =
       (''END System error. Please try again later.'', cleanupSession sessionId st)"
    by (simp_all add: ensure_response_def)
  with shape sent show ?thesis by blast
qed

subsection \<open>Requests on an inherited session id\<close>

lemma inherited_flow_sessions:
  "sessionData st sessionId = None \<Longrightarrow>
   sessionData (snd (inherited_flow clk sessionId phone ctext i st)) = sessionData st"
proof -
  assume none: "sessionData st sessionId = None"
  have a: "sessionData (assign_stage i x st) = sessionData st" for x
    by (cases i) simp_all
  have c: "cleanupSession sessionId st = st"
    using none by (simp add: cleanupSession_def)
  have p: "sessionData (registry_put phone r st) = sessionData st" for r
    by (simp add: registry_put_def)
  show ?thesis
    by (simp add: inherited_flow_def Let_def a c p
        if_distrib[of "\<lambda>x. sessionData (snd x)"] split del: if_split cong: if_cong)
qed

lemma session_lookup_constructor:
  "session_lookup (initial_state\<lparr>functionStage := fs\<rparr>) ''constructor''
     = Some (Inherited (FunctionObject ''constructor''))"
  "session_lookup initial_state ''constructor''
     = Some (Inherited (FunctionObject ''constructor''))"
  by (simp_all add: session_lookup_def initial_state_def object_prototype_get_def
      object_prototype_functions_def)

text \<open>Claim C4 at the session id \<^verbatim>\<open>constructor\<close>, which is not stored and names a
  function of \<^verbatim>\<open>Object.prototype\<close>: from the state at start-up, the request with text
  \<^verbatim>\<open>1\<close> is answered by the name prompt and leaves the stage \<open>ENTER_NAME\<close> on the
  function; the next request, with text \<^verbatim>\<open>1*John\<close>, throws a \<^verbatim>\<open>TypeError\<close>, so the
  handler sends no response that starts with \<^verbatim>\<open>CON\<close> or \<^verbatim>\<open>END\<close>.\<close>

theorem inherited_session_id_throws:
  "''constructor'' \<in> set object_prototype_functions
   \<and> sessionData initial_state ''constructor'' = None
   \<and> ussd_post example_clock ''constructor'' ''+254700000003'' ''1'' initial_state =
       (Inr ''CON Welcome to Farmer Registration\<newline>Please enter your full name:'',
        initial_state\<lparr>functionStage := [''constructor'' \<mapsto> ENTER_NAME]\<rparr>)
   \<and> ussd_post example_clock ''constructor'' ''+254700000003'' ''1*John''
         (initial_state\<lparr>functionStage := [''constructor'' \<mapsto> ENTER_NAME]\<rparr>) =
       (Inl TypeError, initial_state\<lparr>functionStage := [''constructor'' \<mapsto> ENTER_NAME]\<rparr>)"
proof -
  have level: "inputLevel ''1*John'' = 2"
    by (simp add: inputLevel_def userInputs_def)
  have first: "ussd_post example_clock ''constructor'' ''+254700000003'' ''1'' initial_state =
       (Inr ''CON Welcome to Farmer Registration\<newline>Please enter your full name:'',
        initial_state\<lparr>functionStage := [''constructor'' \<mapsto> ENTER_NAME]\<rparr>)"
    by (simp add: ussd_post_inherited[OF session_lookup_constructor(2)] inherited_flow_def
        decode_values Let_def)
      (simp add: initial_state_def)
  have second: "ussd_post example_clock ''constructor'' ''+254700000003'' ''1*John''
         (initial_state\<lparr>functionStage := [''constructor'' \<mapsto> ENTER_NAME]\<rparr>) =
       (Inl TypeError, initial_state\<lparr>functionStage := [''constructor'' \<mapsto> ENTER_NAME]\<rparr>)"
    by (simp add: ussd_post_inherited[OF session_lookup_constructor(1)] inherited_flow_def
        level Let_def)
  from first second show ?thesis
    by (simp add: object_prototype_functions_def initial_state_def)
qed

subsection \<open>The response deadline\<close>








subsection \<open>Requests with a single entry\<close>

lemma inputLevel_text_nonempty: "inputLevel ctext = 1 \<Longrightarrow> ctext \<noteq> []"
  by (auto simp: inputLevel_def userInputs_def)

lemma farm_size_example_s1:
  "sessionData farm_size_example ''s1'' = Some farm_size_session"
  "stage farm_size_session = ENTER_FARM_SIZE"
  by (simp_all add: farm_size_example_def farm_size_session_def)

lemma status_example_s1:
  "sessionData status_example ''s1'' = Some farm_size_session"
  by (simp add: status_example_def)

text \<open>Claim C9. For a stored session and a text that decodes to exactly one entry, the
  request is a main-menu selection whatever the stage of the session: entry \<^verbatim>\<open>1\<close>
  moves the session to \<open>ENTER_NAME\<close> with the name prompt, entry \<^verbatim>\<open>2\<close> answers with
  the status message for the lookup \<^verbatim>\<open>farmerDatabase[phoneNumber]\<close> and deletes the
  session, entry \<^verbatim>\<open>3\<close> answers goodbye and deletes it, and any other entry answers
  invalid option and deletes it. The status message gives the details of the record when
  the registry has one under the phone number as an own property, and says that the
  caller is not registered when the lookup finds nothing: no own property, and no
  property of that name along the prototype chain. Replacing the stored stage by any
  other stage \<open>x\<close> changes neither the response nor the state left.\<close>

theorem single_entry_is_menu_selection:
  assumes "sessionData st sessionId = Some s" and "inputLevel ctext = 1"
  shows "ussd_post clk sessionId phone ctext st =
      (if currentInput ctext = ''1'' then
         (Inr ''CON Welcome to Farmer Registration\<newline>Please enter your full name:'',
          st\<lparr>sessionData := (sessionData st)
             (sessionId \<mapsto> s\<lparr>lastActivity := now_activity clk, stage := ENTER_NAME\<rparr>)\<rparr>)
       else if currentInput ctext = ''2'' then
         (Inr (registration_status (registry_get st phone)),
          st\<lparr>sessionData := (sessionData st)(sessionId := None)\<rparr>)
       else if currentInput ctext = ''3'' then
         (Inr ''END Thank you for using Farmer Registration Service.\<newline>Goodbye!'',
          st\<lparr>sessionData := (sessionData st)(sessionId := None)\<rparr>)
       else
         (Inr ''END Invalid option. Please try again.'',
          st\<lparr>sessionData := (sessionData st)(sessionId := None)\<rparr>))
    \<and> (\<forall>r. farmerDatabase st phone = Some r \<longrightarrow>
          registration_status (registry_get st phone) =
            ''END Your Registration Details:\<newline>Name: '' @ show_string (name r)
            @ ''\<newline>County: '' @ show_value (county r)
            @ ''\<newline>Crop: '' @ show_value (crop r)
            @ ''\<newline>Farm Size: '' @ show_number (farmSize r)
            @ '' acres\<newline>Registered: '' @ registrationDate r)
    \<and> (farmerDatabase st phone = None \<and> registryPrototype st = None
        \<and> phone \<notin> set object_prototype_functions
        \<and> phone \<notin> {''__proto__'', ''stage'', ''lastActivity''} \<longrightarrow>
          registration_status (registry_get st phone) =
            ''END You are not registered yet.\<newline>Please dial again and select option 1 to register.'')
    \<and> ussd_post clk sessionId phone ctext (store_session sessionId (s\<lparr>stage := x\<rparr>) st)
        = ussd_post clk sessionId phone ctext st"
proof -
  from assms(2) have ne: "ctext \<noteq> []" by (rule inputLevel_text_nonempty)
  let ?st = "store_session sessionId (s\<lparr>stage := x\<rparr>) st"
  have other: "sessionData ?st sessionId = Some (s\<lparr>stage := x\<rparr>)"
    by (simp add: store_session_def)
  have same: "registry_get (store_session k s' st') phone = registry_get st' phone" for k s' st'
    by (simp add: store_session_def)
  have one: "ussd_post clk sessionId phone ctext st =
      answered (main_menu_selection sessionId phone (currentInput ctext)
        (s\<lparr>lastActivity := now_activity clk\<rparr>)
        (store_session sessionId (s\<lparr>lastActivity := now_activity clk\<rparr>) st))"
    using assms(2) ne by (simp add: ussd_post_stored[OF assms(1)] stage_flow_def)
  have two: "ussd_post clk sessionId phone ctext ?st =
      answered (main_menu_selection sessionId phone (currentInput ctext)
        (s\<lparr>stage := x, lastActivity := now_activity clk\<rparr>)
        (store_session sessionId (s\<lparr>stage := x, lastActivity := now_activity clk\<rparr>) ?st))"
    using assms(2) ne by (simp add: ussd_post_stored[OF other] stage_flow_def)
  have selection: "ussd_post clk sessionId phone ctext st =
      (if currentInput ctext = ''1'' then
         (Inr ''CON Welcome to Farmer Registration\<newline>Please enter your full name:'',
          st\<lparr>sessionData := (sessionData st)
             (sessionId \<mapsto> s\<lparr>lastActivity := now_activity clk, stage := ENTER_NAME\<rparr>)\<rparr>)
       else if currentInput ctext = ''2'' then
         (Inr (registration_status (registry_get st phone)),
          st\<lparr>sessionData := (sessionData st)(sessionId := None)\<rparr>)
       else if currentInput ctext = ''3'' then
         (Inr ''END Thank you for using Farmer Registration Service.\<newline>Goodbye!'',
          st\<lparr>sessionData := (sessionData st)(sessionId := None)\<rparr>)
       else
         (Inr ''END Invalid option. Please try again.'',
          st\<lparr>sessionData := (sessionData st)(sessionId := None)\<rparr>))"
    unfolding one
    by (simp add: main_menu_selection_def answered_def same)
      (simp add: store_session_def cleanupSession_def)
  have independent:
    "ussd_post clk sessionId phone ctext ?st = ussd_post clk sessionId phone ctext st"
    unfolding one two
    by (simp add: main_menu_selection_def answered_def same)
      (simp add: store_session_def cleanupSession_def)
  have found: "\<forall>r. farmerDatabase st phone = Some r \<longrightarrow>
          registration_status (registry_get st phone) =
            ''END Your Registration Details:\<newline>Name: '' @ show_string (name r)
            @ ''\<newline>County: '' @ show_value (county r)
            @ ''\<newline>Crop: '' @ show_value (crop r)
            @ ''\<newline>Farm Size: '' @ show_number (farmSize r)
            @ '' acres\<newline>Registered: '' @ registrationDate r"
    by (auto simp: registry_get_def registration_status_def show_string_def show_number_def
        split: option.splits)
  have missing: "farmerDatabase st phone = None \<and> registryPrototype st = None
        \<and> phone \<notin> set object_prototype_functions
        \<and> phone \<notin> {''__proto__'', ''stage'', ''lastActivity''} \<longrightarrow>
          registration_status (registry_get st phone) =
            ''END You are not registered yet.\<newline>Please dial again and select option 1 to register.''"
    by (simp add: registry_get_def registration_status_def object_prototype_get_def)
  from selection found missing independent show ?thesis by blast
qed

theorem single_entry_is_menu_selection_witness:
  "sessionData status_example ''s1'' = Some farm_size_session
   \<and> stage farm_size_session = ENTER_FARM_SIZE
   \<and> inputLevel ''1'' = 1 \<and> inputLevel ''2'' = 1
   \<and> ussd_post example_clock ''s1'' ''+254700000003'' ''1'' status_example =
       (Inr ''CON Welcome to Farmer Registration\<newline>Please enter your full name:'',
        status_example\<lparr>sessionData :=
          [''s1'' \<mapsto> farm_size_session\<lparr>lastActivity := 2000, stage := ENTER_NAME\<rparr>]\<rparr>)
   \<and> ussd_post example_clock ''s1'' ''+254700000003'' ''2'' status_example =
       (Inr ''END Your Registration Details:\<newline>Name: J. Wanjiru\<newline>County: Meru\<newline>Crop: Tea\<newline>Farm Size: 3.5 acres\<newline>Registered: 01/01/2024, 09:00:00'',
        status_example\<lparr>sessionData := Map.empty\<rparr>)
   \<and> ussd_post example_clock ''s1'' ''+254700000009'' ''2'' status_example =
       (Inr ''END You are not registered yet.\<newline>Please dial again and select option 1 to register.'',
        status_example\<lparr>sessionData := Map.empty\<rparr>)
   \<and> ussd_post example_clock ''s1'' ''constructor'' ''2'' status_example =
       (Inr ''END Your Registration Details:\<newline>Name: Object\<newline>County: undefined\<newline>Crop: undefined\<newline>Farm Size: undefined acres\<newline>Registered: undefined'',
        status_example\<lparr>sessionData := Map.empty\<rparr>)"
proof -
  note h1 = status_example_s1
  have l1: "inputLevel ''1'' = 1" and l2: "inputLevel ''2'' = 1"
    by (simp_all add: inputLevel_def userInputs_def)
  have c2: "currentInput ''2'' = ''2''"
    by (simp add: currentInput_def userInputs_def)
  have sessions: "sessionData status_example = [''s1'' \<mapsto> farm_size_session]"
    by (simp add: status_example_def)
  have registry:
    "farmerDatabase status_example ''+254700000003'' =
       Some \<lparr>name = Some ''J. Wanjiru'', county = Some (Str ''Meru''), crop = Some (Str ''Tea''),
            farmSize = Some (Fin (7 / 2)), reg_phoneNumber = ''+254700000003'',
            registrationDate = ''01/01/2024, 09:00:00''\<rparr>"
    "farmerDatabase status_example ''+254700000009'' = None"
    "farmerDatabase status_example ''constructor'' = None"
    "registryPrototype status_example = None"
    by (simp_all add: status_example_def registered_example_def initial_state_def)
  note t1 = single_entry_is_menu_selection[OF h1 l1, of example_clock "''+254700000003''"]
  note t2 = single_entry_is_menu_selection[OF h1 l2, of example_clock "''+254700000003''"]
  note t3 = single_entry_is_menu_selection[OF h1 l2, of example_clock "''+254700000009''"]
  note t4 = single_entry_is_menu_selection[OF h1 l2, of example_clock "''constructor''"]
  have r1: "ussd_post example_clock ''s1'' ''+254700000003'' ''1'' status_example =
       (Inr ''CON Welcome to Farmer Registration\<newline>Please enter your full name:'',
        status_example\<lparr>sessionData :=
          [''s1'' \<mapsto> farm_size_session\<lparr>lastActivity := 2000, stage := ENTER_NAME\<rparr>]\<rparr>)"
    using t1 by (simp add: decode_values sessions example_clock_def)
  have r2: "ussd_post example_clock ''s1'' ''+254700000003'' ''2'' status_example =
       (Inr ''END Your Registration Details:\<newline>Name: J. Wanjiru\<newline>County: Meru\<newline>Crop: Tea\<newline>Farm Size: 3.5 acres\<newline>Registered: 01/01/2024, 09:00:00'',
        status_example\<lparr>sessionData := Map.empty\<rparr>)"
    using t2 by (simp add: c2 sessions registry show_string_def show_number_def
        positive_to_string_7_2)
  have r3: "ussd_post example_clock ''s1'' ''+254700000009'' ''2'' status_example =
       (Inr ''END You are not registered yet.\<newline>Please dial again and select option 1 to register.'',
        status_example\<lparr>sessionData := Map.empty\<rparr>)"
    using t3 by (simp add: c2 sessions registry object_prototype_functions_def)
  have r4: "ussd_post example_clock ''s1'' ''constructor'' ''2'' status_example =
       (Inr ''END Your Registration Details:\<newline>Name: Object\<newline>County: undefined\<newline>Crop: undefined\<newline>Farm Size: undefined acres\<newline>Registered: undefined'',
        status_example\<lparr>sessionData := Map.empty\<rparr>)"
    using t4 by (simp add: c2 sessions registry registry_get_def object_prototype_get_def
        object_prototype_functions_def registration_status_def function_name_def)
  from h1 farm_size_example_s1(2) l1 l2 r1 r2 r3 r4 show ?thesis by simp
qed

subsection \<open>The farm-size stage\<close>




text \<open>The test of lines 214-215 is \<^verbatim>\<open>isNaN(farmSize) || farmSize <= 0\<close>; the entry
  \<^verbatim>\<open>Infinity\<close> passes it and is stored as the farm size.\<close>

lemma parseFloat_Infinity: "parseFloat ''Infinity'' = PosInf"
  by (simp add: parseFloat_def strip_ws_none ws_seqs_def starts_with_def unsigned_literal_def)

lemma farm_size_infinity_accepted:
  "ussd_post example_clock ''s1'' ''+254700000003'' ''1*Jane Wanjiru*1*1*Infinity''
     farm_size_example =
     (Inr (generateConfirmation ((farmerData farm_size_session)\<lparr>farmSize := Some PosInf\<rparr>)),
      farm_size_example\<lparr>sessionData := (sessionData farm_size_example)
        (''s1'' \<mapsto> farm_size_session
           \<lparr>lastActivity := 2000,
            farmerData := (farmerData farm_size_session)\<lparr>farmSize := Some PosInf\<rparr>,
            stage := CONFIRM_REGISTRATION\<rparr>)\<rparr>)"
proof -
  have "inputLevel ''1*Jane Wanjiru*1*1*Infinity'' = 5"
    "currentInput ''1*Jane Wanjiru*1*1*Infinity'' = ''Infinity''"
    by (simp_all add: inputLevel_def currentInput_def userInputs_def)
  then show ?thesis
    by (simp add: ussd_post_stored[OF farm_size_example_s1(1)] stage_flow_def
        farm_size_example_s1 enter_farm_size_def parseFloat_Infinity isNaN_def
        store_session_def example_clock_def Let_def answered_def)
qed

text \<open>Claim C10, as amended. For a session at stage \<open>ENTER_FARM_SIZE\<close> and a request
  whose text is not empty and does not decode to exactly one entry, if \<^verbatim>\<open>parseFloat\<close>
  of the latest entry is \<open>NaN\<close> or at most \<open>0\<close>, the request changes nothing but
  \<^verbatim>\<open>lastActivity\<close> of that session: its collected data, stage, caller and creation time
  are unchanged, every other session is unchanged and so is the registry (its own
  properties and its prototype).\<close>

theorem farm_size_reprompt_frame:
  assumes "sessionData st sessionId = Some s" and "stage s = ENTER_FARM_SIZE"
    and "ctext \<noteq> []" and "inputLevel ctext \<noteq> 1"
    and "isNaN (parseFloat (currentInput ctext)) \<or> le_zero (parseFloat (currentInput ctext))"
  shows "\<exists>s'. sessionData (snd (ussd_post clk sessionId phone ctext st)) sessionId = Some s'
      \<and> lastActivity s' = now_activity clk
      \<and> farmerData s' = farmerData s \<and> stage s' = stage s
      \<and> phoneNumber s' = phoneNumber s \<and> createdAt s' = createdAt s
      \<and> (\<forall>k. k \<noteq> sessionId \<longrightarrow>
            sessionData (snd (ussd_post clk sessionId phone ctext st)) k = sessionData st k)
      \<and> farmerDatabase (snd (ussd_post clk sessionId phone ctext st)) = farmerDatabase st
      \<and> registryPrototype (snd (ussd_post clk sessionId phone ctext st)) = registryPrototype st
      \<and> fst (ussd_post clk sessionId phone ctext st) = Inr farmSizeError"
  using assms
  by (auto simp: ussd_post_stored[OF assms(1)] stage_flow_def enter_farm_size_def
      store_session_def isNaN_def Let_def answered_def)

theorem farm_size_reprompt_frame_witness:
  "sessionData farm_size_example ''s1'' = Some farm_size_session
   \<and> stage farm_size_session = ENTER_FARM_SIZE
   \<and> inputLevel ''1*Jane Wanjiru*1*1*abc'' = 5
   \<and> isNaN (parseFloat (currentInput ''1*Jane Wanjiru*1*1*abc''))
   \<and> sessionData (snd (ussd_post example_clock ''s1'' ''+254700000003''
         ''1*Jane Wanjiru*1*1*abc'' farm_size_example)) ''s1''
       = Some (farm_size_session\<lparr>lastActivity := 2000\<rparr>)
   \<and> farmerDatabase (snd (ussd_post example_clock ''s1'' ''+254700000003''
         ''1*Jane Wanjiru*1*1*abc'' farm_size_example)) = Map.empty"
proof -
  note h1 = farm_size_example_s1(1) and h2 = farm_size_example_s1(2)
  have ne: "''1*Jane Wanjiru*1*1*abc'' \<noteq> []" by simp
  have lv: "inputLevel ''1*Jane Wanjiru*1*1*abc'' \<noteq> 1"
    by (simp add: decode_values)
  have bad: "isNaN (parseFloat (currentInput ''1*Jane Wanjiru*1*1*abc''))"
    by (simp add: decode_values parseFloat_values isNaN_def)
  then have bad': "isNaN (parseFloat (currentInput ''1*Jane Wanjiru*1*1*abc''))
      \<or> le_zero (parseFloat (currentInput ''1*Jane Wanjiru*1*1*abc''))" ..
  from farm_size_reprompt_frame[OF h1 h2 ne lv bad', of example_clock "''+254700000003''"]
  have "sessionData (snd (ussd_post example_clock ''s1'' ''+254700000003''
         ''1*Jane Wanjiru*1*1*abc'' farm_size_example)) ''s1''
       = Some (farm_size_session\<lparr>lastActivity := 2000\<rparr>)"
    and "farmerDatabase (snd (ussd_post example_clock ''s1'' ''+254700000003''
         ''1*Jane Wanjiru*1*1*abc'' farm_size_example)) = Map.empty"
    by (auto simp: example_clock_def farm_size_example_def initial_state_def)
  with h1 h2 bad show ?thesis
    by (simp add: decode_values)
qed

text \<open>The claim as stated (for every session at \<open>ENTER_FARM_SIZE\<close> whose latest entry
  does not parse as a positive number) fails: with the empty text the latest entry is
  the empty string, which parses as \<open>NaN\<close>, and the request sets the stage to
  \<open>MAIN_MENU\<close>.\<close>

theorem farm_size_empty_text_counterexample:
  "sessionData farm_size_example ''s1'' = Some farm_size_session
   \<and> stage farm_size_session = ENTER_FARM_SIZE
   \<and> parseFloat (currentInput []) = NaN
   \<and> fst (ussd_post example_clock ''s1'' ''+254700000003'' [] farm_size_example)
       = Inr generateMainMenu
   \<and> map_option stage
        (sessionData (snd (ussd_post example_clock ''s1'' ''+254700000003'' [] farm_size_example)) ''s1'')
       = Some MAIN_MENU"
  by (simp add: farm_size_example_s1 decode_values parseFloat_values
      ussd_post_stored[OF farm_size_example_s1(1)] answered_def
      stage_flow_def store_session_def)

subsection \<open>The registration dialogue\<close>

lemma dialogue_append:
  "dialogue sessionId phone (xs @ ys) st =
     (case dialogue sessionId phone xs st of
        (rs, st1) \<Rightarrow>
          (case dialogue sessionId phone ys st1 of (rs', st2) \<Rightarrow> (rs @ rs', st2)))"
  by (induction xs arbitrary: st) (auto split: prod.splits)

lemma reachable_dialogue:
  "reachable st \<Longrightarrow> reachable (snd (dialogue sessionId phone reqs st))"
proof (induction reqs arbitrary: st)
  case Nil
  then show ?case by simp
next
  case (Cons a reqs)
  obtain clk ctext where a: "a = (clk, ctext)" by (cases a)
  from Cons.prems have "reachable (snd (ussd_post clk sessionId phone ctext st))"
    by (rule reachable.request)
  from Cons.IH[OF this] show ?case
    by (auto simp: a split: prod.splits)
qed

lemma table_get_own:
  "table_get counties st ''1'' = Some (Str ''Nairobi'')"
  "table_get crops st ''1'' = Some (Str ''Maize'')"
  by (simp_all add: table_get_def counties_def crops_def)

lemma happy_path_prefix:
  assumes "session_lookup st sessionId = None"
  shows "dialogue sessionId phone
           [(c1, []), (c2, ''1''), (c3, ''1*Jane Wanjiru''), (c4, ''1*Jane Wanjiru*1''),
            (c5, ''1*Jane Wanjiru*1*1''), (c6, ''1*Jane Wanjiru*1*1*3.5'')] st =
         ([Inr ''CON Welcome to Farmer Registration Service\<newline>Please select an option:\<newline>1. Register as new farmer\<newline>2. Check registration status\<newline>3. Exit'',
           Inr ''CON Welcome to Farmer Registration\<newline>Please enter your full name:'',
           Inr ''CON Enter your county location:\<newline>1. Nairobi\<newline>2. Kiambu\<newline>3. Machakos\<newline>4. Nakuru\<newline>5. Meru\<newline>6. Kisumu\<newline>7. Mombasa\<newline>8. Other'',
           Inr ''CON Select your main crop:\<newline>1. Maize\<newline>2. Wheat\<newline>3. Rice\<newline>4. Beans\<newline>5. Potatoes\<newline>6. Tea\<newline>7. Coffee\<newline>8. Sugarcane\<newline>9. Other'',
           Inr ''CON Enter your farm size in acres:\<newline>(Example: 2.5 or 10)'',
           Inr ''CON Confirm your details:\<newline>Name: Jane Wanjiru\<newline>County: Nairobi\<newline>Crop: Maize\<newline>Farm: 3.5 acres\<newline>\<newline>1. Confirm & Register\<newline>2. Cancel''],
          st\<lparr>sessionData := (sessionData st)(sessionId \<mapsto>
             \<lparr>phoneNumber = phone, stage = CONFIRM_REGISTRATION,
              farmerData = \<lparr>name = Some ''Jane Wanjiru'', county = Some (Str ''Nairobi''),
                            crop = Some (Str ''Maize''), farmSize = Some (Fin (7 / 2))\<rparr>,
              lastActivity = now_activity c6, createdAt = now_created c1\<rparr>)\<rparr>)"
proof -
  have stored: "sessionData (st\<lparr>sessionData := (sessionData st)(sessionId \<mapsto> s)\<rparr>) sessionId
      = Some s" for s
    by simp
  show ?thesis
    by (simp add: ussd_post_unseen[OF assms] ussd_post_stored[OF stored] answered_def
        stage_flow_def decode_values main_menu_selection_def
        select_county_def select_crop_def enter_farm_size_def table_get_own js_truthy_def
        store_session_def new_session_def parseFloat_values isNaN_def Let_def
        generateMainMenu_def countyMenu_def generateCropMenu_def farmSizePrompt_def
        generateConfirmation_def show_string_def show_number_def positive_to_string_7_2)
qed

text \<open>The registration scenario for a session id whose lookup is \<^verbatim>\<open>undefined\<close> and a
  phone number other than \<^verbatim>\<open>__proto__\<close>: the seven responses, the record stored under
  the phone number (whatever the registry held there before), the session deleted.\<close>

lemma happy_path_plain_ids:
  assumes "session_lookup st sessionId = None" and "phone \<noteq> ''__proto__''"
  shows "dialogue sessionId phone
           [(c1, []), (c2, ''1''), (c3, ''1*Jane Wanjiru''), (c4, ''1*Jane Wanjiru*1''),
            (c5, ''1*Jane Wanjiru*1*1''), (c6, ''1*Jane Wanjiru*1*1*3.5''),
            (c7, ''1*Jane Wanjiru*1*1*3.5*1'')] st =
         ([Inr ''CON Welcome to Farmer Registration Service\<newline>Please select an option:\<newline>1. Register as new farmer\<newline>2. Check registration status\<newline>3. Exit'',
           Inr ''CON Welcome to Farmer Registration\<newline>Please enter your full name:'',
           Inr ''CON Enter your county location:\<newline>1. Nairobi\<newline>2. Kiambu\<newline>3. Machakos\<newline>4. Nakuru\<newline>5. Meru\<newline>6. Kisumu\<newline>7. Mombasa\<newline>8. Other'',
           Inr ''CON Select your main crop:\<newline>1. Maize\<newline>2. Wheat\<newline>3. Rice\<newline>4. Beans\<newline>5. Potatoes\<newline>6. Tea\<newline>7. Coffee\<newline>8. Sugarcane\<newline>9. Other'',
           Inr ''CON Enter your farm size in acres:\<newline>(Example: 2.5 or 10)'',
           Inr ''CON Confirm your details:\<newline>Name: Jane Wanjiru\<newline>County: Nairobi\<newline>Crop: Maize\<newline>Farm: 3.5 acres\<newline>\<newline>1. Confirm & Register\<newline>2. Cancel'',
           Inr ''END Registration successful!\<newline>Thank you Jane Wanjiru.\<newline>You will receive SMS confirmation shortly.\<newline>For assistance, call 0700000000''],
          st\<lparr>farmerDatabase := (farmerDatabase st)(phone \<mapsto>
             \<lparr>name = Some ''Jane Wanjiru'', county = Some (Str ''Nairobi''),
              crop = Some (Str ''Maize''), farmSize = Some (Fin (7 / 2)),
              reg_phoneNumber = phone, registrationDate = now_locale c7\<rparr>)\<rparr>)"
proof -
  from assms(1) have none: "sessionData st sessionId = None"
    by (rule session_lookup_None)
  let ?six = "[(c1, []), (c2, ''1''), (c3, ''1*Jane Wanjiru''), (c4, ''1*Jane Wanjiru*1''),
            (c5, ''1*Jane Wanjiru*1*1''), (c6, ''1*Jane Wanjiru*1*1*3.5'')]"
  have split: "[(c1, []), (c2, ''1''), (c3, ''1*Jane Wanjiru''), (c4, ''1*Jane Wanjiru*1''),
            (c5, ''1*Jane Wanjiru*1*1''), (c6, ''1*Jane Wanjiru*1*1*3.5''),
            (c7, ''1*Jane Wanjiru*1*1*3.5*1'')] = ?six @ [(c7, ''1*Jane Wanjiru*1*1*3.5*1'')]"
    by simp
  have same: "(sessionData st)(sessionId := None) = sessionData st"
    using none by (simp add: fun_upd_idem)
  have stored: "sessionData (st\<lparr>sessionData := (sessionData st)(sessionId \<mapsto> s)\<rparr>) sessionId
      = Some s" for s
    by simp
  show ?thesis
    unfolding split dialogue_append happy_path_prefix[OF assms(1)]
    by (simp add: ussd_post_stored[OF stored] answered_def stage_flow_def decode_values
        confirm_registration_def registry_put_def assms(2)
        store_session_def cleanupSession_def show_string_def Let_def same none)
qed

text \<open>An instance: the caller of \<open>registered_example\<close> has a record with county Meru;
  after the scenario on a new session id the registry holds the new record instead.\<close>

lemma happy_path_overwrites_record:
  "map_option county (farmerDatabase registered_example ''+254700000003'')
     = Some (Some (Str ''Meru''))
   \<and> farmerDatabase (snd (dialogue ''ATUid_1'' ''+254700000003''
           [(example_clock, []), (example_clock, ''1''), (example_clock, ''1*Jane Wanjiru''),
            (example_clock, ''1*Jane Wanjiru*1''), (example_clock, ''1*Jane Wanjiru*1*1''),
            (example_clock, ''1*Jane Wanjiru*1*1*3.5''),
            (example_clock, ''1*Jane Wanjiru*1*1*3.5*1'')] registered_example)) ''+254700000003''
       = Some \<lparr>name = Some ''Jane Wanjiru'', county = Some (Str ''Nairobi''),
               crop = Some (Str ''Maize''), farmSize = Some (Fin (7 / 2)),
               reg_phoneNumber = ''+254700000003'',
               registrationDate = ''15/01/2025, 10:00:00''\<rparr>"
proof -
  have unseen: "session_lookup registered_example ''ATUid_1'' = None"
    by (simp add: session_lookup_def registered_example_def initial_state_def
        object_prototype_get_def object_prototype_functions_def)
  have phone: "''+254700000003'' \<noteq> ''__proto__''" by simp
  have prior: "map_option county (farmerDatabase registered_example ''+254700000003'')
     = Some (Some (Str ''Meru''))"
    by (simp add: registered_example_def)
  from happy_path_plain_ids[OF unseen phone, of example_clock example_clock example_clock
      example_clock example_clock example_clock example_clock]
  show ?thesis using prior by (simp add: example_clock_def)
qed

text \<open>With the phone number \<^verbatim>\<open>__proto__\<close> the seven responses are the same, but line
  236 runs the inherited setter: the record becomes the prototype of
  \<^verbatim>\<open>farmerDatabase\<close>, which gets no own property.\<close>

lemma happy_path_proto_phone:
  "snd (dialogue ''ATUid_1'' ''__proto__''
           [(example_clock, []), (example_clock, ''1''), (example_clock, ''1*Jane Wanjiru''),
            (example_clock, ''1*Jane Wanjiru*1''), (example_clock, ''1*Jane Wanjiru*1*1''),
            (example_clock, ''1*Jane Wanjiru*1*1*3.5''),
            (example_clock, ''1*Jane Wanjiru*1*1*3.5*1'')] initial_state) =
     initial_state\<lparr>registryPrototype :=
        Some \<lparr>name = Some ''Jane Wanjiru'', county = Some (Str ''Nairobi''),
              crop = Some (Str ''Maize''), farmSize = Some (Fin (7 / 2)),
              reg_phoneNumber = ''__proto__'', registrationDate = ''15/01/2025, 10:00:00''\<rparr>\<rparr>"
proof -
  have unseen: "session_lookup initial_state ''ATUid_1'' = None"
    by (simp add: session_lookup_def initial_state_def object_prototype_get_def
        object_prototype_functions_def)
  let ?six = "[(example_clock, []), (example_clock, ''1''), (example_clock, ''1*Jane Wanjiru''),
            (example_clock, ''1*Jane Wanjiru*1''), (example_clock, ''1*Jane Wanjiru*1*1''),
            (example_clock, ''1*Jane Wanjiru*1*1*3.5'')]"
  have split: "[(example_clock, []), (example_clock, ''1''), (example_clock, ''1*Jane Wanjiru''),
            (example_clock, ''1*Jane Wanjiru*1''), (example_clock, ''1*Jane Wanjiru*1*1''),
            (example_clock, ''1*Jane Wanjiru*1*1*3.5''),
            (example_clock, ''1*Jane Wanjiru*1*1*3.5*1'')]
      = ?six @ [(example_clock, ''1*Jane Wanjiru*1*1*3.5*1'')]"
    by simp
  have stored: "sessionData (st\<lparr>sessionData := (sessionData st)(k \<mapsto> s)\<rparr>) k = Some s"
    for st :: state and k s
    by simp
  show ?thesis
    unfolding split dialogue_append happy_path_prefix[OF unseen]
    by (simp add: ussd_post_stored[OF stored] answered_def stage_flow_def decode_values
        confirm_registration_def registry_put_def
        store_session_def cleanupSession_def Let_def)
      (simp add: initial_state_def example_clock_def)
qed

text \<open>Claim C1 at the session id \<^verbatim>\<open>constructor\<close>, which no request has used before:
  from the state at start-up, the first two requests of the scenario are answered by the
  main menu and the name prompt; the third, with the name, throws a \<^verbatim>\<open>TypeError\<close>;
  the other four are answered by the terminal error message. No record is stored in the
  registry.\<close>

theorem happy_path_inherited_session_id:
  "sessionData initial_state ''constructor'' = None
   \<and> dialogue ''constructor'' ''+254700000003''
       [(example_clock, []), (example_clock, ''1''), (example_clock, ''1*Jane Wanjiru''),
        (example_clock, ''1*Jane Wanjiru*1''), (example_clock, ''1*Jane Wanjiru*1*1''),
        (example_clock, ''1*Jane Wanjiru*1*1*3.5''),
        (example_clock, ''1*Jane Wanjiru*1*1*3.5*1'')] initial_state =
     ([Inr ''CON Welcome to Farmer Registration Service\<newline>Please select an option:\<newline>1. Register as new farmer\<newline>2. Check registration status\<newline>3. Exit'',
       Inr ''CON Welcome to Farmer Registration\<newline>Please enter your full name:'',
       Inl TypeError,
       Inr ''END An error occurred. Please dial again to restart.'',
       Inr ''END An error occurred. Please dial again to restart.'',
       Inr ''END An error occurred. Please dial again to restart.'',
       Inr ''END An error occurred. Please dial again to restart.''],
      initial_state\<lparr>functionStage := [''constructor'' \<mapsto> ENTER_NAME]\<rparr>)
   \<and> farmerDatabase (initial_state\<lparr>functionStage := [''constructor'' \<mapsto> ENTER_NAME]\<rparr>)
       = Map.empty"
proof -
  have none: "sessionData (initial_state\<lparr>functionStage := fs\<rparr>) ''constructor'' = None" for fs
    by (simp add: initial_state_def)
  have clean: "cleanupSession ''constructor'' (initial_state\<lparr>functionStage := fs\<rparr>)
      = initial_state\<lparr>functionStage := fs\<rparr>" for fs
    using none[of fs] by (simp add: cleanupSession_def)
  have start: "initial_state = initial_state\<lparr>functionStage := Map.empty\<rparr>"
    by (simp add: initial_state_def)
  have "dialogue ''constructor'' ''+254700000003''
       [(example_clock, []), (example_clock, ''1''), (example_clock, ''1*Jane Wanjiru''),
        (example_clock, ''1*Jane Wanjiru*1''), (example_clock, ''1*Jane Wanjiru*1*1''),
        (example_clock, ''1*Jane Wanjiru*1*1*3.5''),
        (example_clock, ''1*Jane Wanjiru*1*1*3.5*1'')] (initial_state\<lparr>functionStage := Map.empty\<rparr>) =
     ([Inr ''CON Welcome to Farmer Registration Service\<newline>Please select an option:\<newline>1. Register as new farmer\<newline>2. Check registration status\<newline>3. Exit'',
       Inr ''CON Welcome to Farmer Registration\<newline>Please enter your full name:'',
       Inl TypeError,
       Inr ''END An error occurred. Please dial again to restart.'',
       Inr ''END An error occurred. Please dial again to restart.'',
       Inr ''END An error occurred. Please dial again to restart.'',
       Inr ''END An error occurred. Please dial again to restart.''],
      initial_state\<lparr>functionStage := [''constructor'' \<mapsto> ENTER_NAME]\<rparr>)"
    by (simp add: ussd_post_inherited[OF session_lookup_constructor(1)] inherited_flow_def
        decode_values Let_def clean generateMainMenu_def)
  with start have run: "dialogue ''constructor'' ''+254700000003''
       [(example_clock, []), (example_clock, ''1''), (example_clock, ''1*Jane Wanjiru''),
        (example_clock, ''1*Jane Wanjiru*1''), (example_clock, ''1*Jane Wanjiru*1*1''),
        (example_clock, ''1*Jane Wanjiru*1*1*3.5''),
        (example_clock, ''1*Jane Wanjiru*1*1*3.5*1'')] initial_state =
     ([Inr ''CON Welcome to Farmer Registration Service\<newline>Please select an option:\<newline>1. Register as new farmer\<newline>2. Check registration status\<newline>3. Exit'',
       Inr ''CON Welcome to Farmer Registration\<newline>Please enter your full name:'',
       Inl TypeError,
       Inr ''END An error occurred. Please dial again to restart.'',
       Inr ''END An error occurred. Please dial again to restart.'',
       Inr ''END An error occurred. Please dial again to restart.'',
       Inr ''END An error occurred. Please dial again to restart.''],
      initial_state\<lparr>functionStage := [''constructor'' \<mapsto> ENTER_NAME]\<rparr>)"
    by simp
  have "farmerDatabase (initial_state\<lparr>functionStage := [''constructor'' \<mapsto> ENTER_NAME]\<rparr>)
       = Map.empty"
    by (simp add: initial_state_def)
  with run none[of Map.empty] start show ?thesis by simp
qed

subsection \<open>The store invariant\<close>

lemma store_inv_sessions: "sessionData st' = sessionData st \<Longrightarrow> store_inv st' = store_inv st"
  by (simp add: store_inv_def)

lemma store_inv_store:
  "store_inv st \<Longrightarrow> required (stage s) (farmerData s) \<Longrightarrow> store_inv (store_session sessionId s st)"
  by (simp add: store_inv_def store_session_def)

lemma store_inv_cleanup: "store_inv st \<Longrightarrow> store_inv (cleanupSession sessionId st)"
  by (simp add: store_inv_def cleanupSession_def)

lemma store_inv_registry_put [simp]: "store_inv (registry_put phone r st) = store_inv st"
  by (simp add: store_inv_def registry_put_def)

lemma js_truthy_Some: "js_truthy v \<Longrightarrow> v \<noteq> None"
  by (cases v) (simp_all add: js_truthy_def)

lemma branch_inv:
  assumes "store_inv st"
  shows "store_inv (snd (main_menu_selection sessionId phone cur s st))"
    "required SELECT_COUNTY (farmerData s) \<Longrightarrow>
       store_inv (snd (select_county sessionId cur s st))"
    "required SELECT_CROP (farmerData s) \<Longrightarrow>
       store_inv (snd (select_crop sessionId cur s st))"
    "required ENTER_FARM_SIZE (farmerData s) \<Longrightarrow>
       store_inv (snd (enter_farm_size sessionId cur s st))"
    "store_inv (snd (confirm_registration clk sessionId phone cur s st))"
    "store_inv (snd (fallback sessionId ctext s st))"
proof -
  show "store_inv (snd (main_menu_selection sessionId phone cur s st))"
    using assms
    by (simp add: main_menu_selection_def store_inv_store store_inv_cleanup)
  show "store_inv (snd (select_county sessionId cur s st))"
    if "required SELECT_COUNTY (farmerData s)"
    using assms that js_truthy_Some[of "table_get counties st cur"]
    by (auto simp: select_county_def store_inv_store store_inv_cleanup)
  show "store_inv (snd (select_crop sessionId cur s st))"
    if "required SELECT_CROP (farmerData s)"
    using assms that js_truthy_Some[of "table_get crops st cur"]
    by (auto simp: select_crop_def store_inv_store store_inv_cleanup)
  show "store_inv (snd (enter_farm_size sessionId cur s st))"
    if "required ENTER_FARM_SIZE (farmerData s)"
    using assms that
    by (simp add: enter_farm_size_def Let_def store_inv_store)
  show "store_inv (snd (confirm_registration clk sessionId phone cur s st))"
    using assms
    by (simp add: confirm_registration_def Let_def store_inv_cleanup)
  show "store_inv (snd (fallback sessionId ctext s st))"
    using assms
    by (simp add: fallback_def store_inv_store store_inv_cleanup)
qed

lemma stage_flow_inv:
  assumes "store_inv st" and "required (stage s) (farmerData s)"
  shows "store_inv (snd (stage_flow clk sessionId phone ctext s st))"
  using assms
  by (auto simp: stage_flow_def branch_inv store_inv_store)

lemma touch_inherited_sessions [simp]:
  "sessionData (touch_inherited i now st) = sessionData st"
  by (cases i) simp_all

lemma ussd_post_inv:
  assumes "store_inv st"
  shows "store_inv (snd (ussd_post clk sessionId phone ctext st))"
proof (cases "session_lookup st sessionId")
  case None
  have "store_inv (store_session sessionId (new_session phone clk) st)"
    using assms by (simp add: store_inv_store new_session_def)
  then show ?thesis
    by (simp add: ussd_post_unseen[OF None] answered_def stage_flow_inv new_session_def)
next
  case (Some ref)
  show ?thesis
  proof (cases ref)
    case (Stored s)
    with Some have stored: "sessionData st sessionId = Some s"
      by (auto simp: session_lookup_def split: option.splits if_splits)
    with assms have req: "required (stage s) (farmerData s)"
      by (simp add: store_inv_def)
    then have "store_inv (store_session sessionId (s\<lparr>lastActivity := now_activity clk\<rparr>) st)"
      using assms by (simp add: store_inv_store)
    then show ?thesis
      using req by (simp add: ussd_post_stored[OF stored] answered_def stage_flow_inv)
  next
    case (Inherited i)
    with Some have lookup: "session_lookup st sessionId = Some (Inherited i)" by simp
    then have "sessionData (touch_inherited i (now_activity clk) st) sessionId = None"
      by (simp add: session_lookup_Inherited)
    then have "sessionData (snd (inherited_flow clk sessionId phone ctext i
        (touch_inherited i (now_activity clk) st))) = sessionData st"
      by (simp add: inherited_flow_sessions)
    from store_inv_sessions[OF this] show ?thesis
      using assms by (simp add: ussd_post_inherited[OF lookup])
  qed
qed

lemma sweeper_tick_inv:
  assumes "store_inv st"
  shows "store_inv (sweeper_tick now keys st)"
  using assms
  by (auto simp: store_inv_def sweeper_tick_def fold_sweep_one split: option.splits if_splits)

lemma reachable_inv: "reachable st \<Longrightarrow> store_inv st"
proof (induction rule: reachable.induct)
  case start
  show ?case by (simp add: store_inv_def initial_state_def)
next
  case (request st clk sessionId phone ctext)
  then show ?case by (simp add: ussd_post_inv)
next
  case (sweep st keys now)
  then show ?case by (simp add: sweeper_tick_inv)
qed

text \<open>An entry that names a member of \<^verbatim>\<open>Object.prototype\<close> is accepted as a county
  (line 164 finds the inherited function, which is truthy): the function is stored as
  the county and the session advances to \<open>SELECT_CROP\<close>.\<close>

lemma inherited_county_accepted:
  "ussd_post example_clock ''s1'' ''+254700000003'' ''1*Jane Wanjiru*constructor'' county_example =
     (Inr generateCropMenu,
      initial_state\<lparr>sessionData :=
       [''s1'' \<mapsto> \<lparr>phoneNumber = ''+254700000003'', stage = SELECT_CROP,
                  farmerData = \<lparr>name = Some ''Jane Wanjiru'', county = Some (Fn ''constructor''),
                                crop = None, farmSize = None\<rparr>,
                  lastActivity = 2000, createdAt = 1000\<rparr>]\<rparr>)
   \<and> show_value (Some (Fn ''constructor'')) = ''function Object() { [native code] }''"
proof -
  have s1: "sessionData county_example ''s1''
      = Some \<lparr>phoneNumber = ''+254700000003'', stage = SELECT_COUNTY,
              farmerData = \<lparr>name = Some ''Jane Wanjiru'', county = None, crop = None,
                            farmSize = None\<rparr>,
              lastActivity = 1000, createdAt = 1000\<rparr>"
    by (simp add: county_example_def)
  have decode: "inputLevel ''1*Jane Wanjiru*constructor'' = 3"
    "currentInput ''1*Jane Wanjiru*constructor'' = ''constructor''"
    by (simp_all add: inputLevel_def currentInput_def userInputs_def)
  have found: "table_get counties st ''constructor'' = Some (Fn ''constructor'')" for st
    by (simp add: table_get_def counties_def object_prototype_get_def
        object_prototype_functions_def)
  have "ussd_post example_clock ''s1'' ''+254700000003'' ''1*Jane Wanjiru*constructor''
      county_example =
     (Inr generateCropMenu,
      county_example\<lparr>sessionData := (sessionData county_example)
       (''s1'' \<mapsto> \<lparr>phoneNumber = ''+254700000003'', stage = SELECT_CROP,
                  farmerData = \<lparr>name = Some ''Jane Wanjiru'', county = Some (Fn ''constructor''),
                                crop = None, farmSize = None\<rparr>,
                  lastActivity = 2000, createdAt = 1000\<rparr>)\<rparr>)"
    by (simp add: ussd_post_stored[OF s1] answered_def stage_flow_def decode select_county_def
        found js_truthy_def store_session_def example_clock_def)
  then show ?thesis
    by (simp add: county_example_def function_name_def)
qed

text \<open>Claim C3. Every request, whatever its session id, phone number and text, preserves
  the store invariant: each stored session has the properties of \<^verbatim>\<open>farmerData\<close>
  assigned that the stages before its stage assign. The invariant holds in every
  reachable state (requests and sweeper ticks from the state at start-up), so no reachable
  state holds a session at \<open>CONFIRM_REGISTRATION\<close> that lacks a name, a county, a crop
  or a farm size.\<close>

theorem store_invariant:
  "(store_inv st \<longrightarrow> store_inv (snd (ussd_post clk sessionId phone ctext st)))
   \<and> (reachable st \<longrightarrow> store_inv st)
   \<and> (reachable st \<and> sessionData st k = Some s \<and> stage s = CONFIRM_REGISTRATION \<longrightarrow>
        name (farmerData s) \<noteq> None \<and> county (farmerData s) \<noteq> None
        \<and> crop (farmerData s) \<noteq> None \<and> farmSize (farmerData s) \<noteq> None)"
proof (intro conjI impI)
  assume "store_inv st"
  then show "store_inv (snd (ussd_post clk sessionId phone ctext st))"
    by (rule ussd_post_inv)
next
  assume "reachable st"
  then show "store_inv st" by (rule reachable_inv)
next
  assume a: "reachable st \<and> sessionData st k = Some s \<and> stage s = CONFIRM_REGISTRATION"
  then have "store_inv st" by (simp add: reachable_inv)
  moreover from a have k: "sessionData st k = Some s" and c: "stage s = CONFIRM_REGISTRATION"
    by simp_all
  ultimately have "required (stage s) (farmerData s)"
    unfolding store_inv_def by blast
  with c have "required CONFIRM_REGISTRATION (farmerData s)" by simp
  then show "name (farmerData s) \<noteq> None" "county (farmerData s) \<noteq> None"
    "crop (farmerData s) \<noteq> None" "farmSize (farmerData s) \<noteq> None"
    by simp_all
qed

theorem store_invariant_witness:
  "store_inv farm_size_example
   \<and> store_inv (snd (ussd_post example_clock ''s1'' ''+254700000003'' ''1*Jane Wanjiru*1*1*3.5''
        farm_size_example))
   \<and> store_inv county_example
   \<and> store_inv (snd (ussd_post example_clock ''s1'' ''+254700000003''
        ''1*Jane Wanjiru*constructor'' county_example))
   \<and> reachable confirm_example \<and> store_inv confirm_example
   \<and> map_option stage (sessionData confirm_example ''ATUid_1'') = Some CONFIRM_REGISTRATION
   \<and> map_option (farmSize \<circ> farmerData) (sessionData confirm_example ''ATUid_1'')
       = Some (Some (Fin (7 / 2)))
   \<and> (\<exists>s. sessionData confirm_example ''ATUid_1'' = Some s
         \<and> name (farmerData s) \<noteq> None \<and> county (farmerData s) \<noteq> None
         \<and> crop (farmerData s) \<noteq> None \<and> farmSize (farmerData s) \<noteq> None)"
proof -
  have inv0: "store_inv farm_size_example"
    by (simp add: store_inv_def farm_size_example_def farm_size_session_def)
  have inv0': "store_inv county_example"
    by (simp add: store_inv_def county_example_def)
  have reach: "reachable confirm_example"
    unfolding confirm_example_def by (rule reachable_dialogue) (rule reachable.start)
  have unseen: "session_lookup initial_state ''ATUid_1'' = None"
    by (simp add: session_lookup_def initial_state_def object_prototype_get_def
        object_prototype_functions_def)
  obtain s where s: "sessionData confirm_example ''ATUid_1'' = Some s"
    "stage s = CONFIRM_REGISTRATION" "farmSize (farmerData s) = Some (Fin (7 / 2))"
    unfolding confirm_example_def happy_path_prefix[OF unseen] by simp
  note inv = store_invariant[of farm_size_example example_clock "''s1''" "''+254700000003''"
      "''1*Jane Wanjiru*1*1*3.5''"]
  note inv' = store_invariant[of county_example example_clock "''s1''" "''+254700000003''"
      "''1*Jane Wanjiru*constructor''"]
  note at_confirm = store_invariant[of confirm_example _ _ _ _ "''ATUid_1''" s]
  from inv inv0 have step: "store_inv (snd (ussd_post example_clock ''s1'' ''+254700000003''
      ''1*Jane Wanjiru*1*1*3.5'' farm_size_example))"
    by blast
  from inv' inv0' have step': "store_inv (snd (ussd_post example_clock ''s1'' ''+254700000003''
      ''1*Jane Wanjiru*constructor'' county_example))"
    by blast
  from at_confirm reach have inv1: "store_inv confirm_example" by blast
  from at_confirm reach s have full: "name (farmerData s) \<noteq> None \<and> county (farmerData s) \<noteq> None
        \<and> crop (farmerData s) \<noteq> None \<and> farmSize (farmerData s) \<noteq> None"
    by blast
  from inv0 step inv0' step' reach inv1 s full show ?thesis by auto
qed

end
